theory Spec2Isabelle
  imports Complex_Main "HOL-Library.Multiset"
begin

section \<open>Values and the Python operations the program applies to them\<close>

text \<open>
  \<^verbatim>\<open>validation_interface.py\<close> works on what \<^verbatim>\<open>json.load\<close> returns and keeps those
  values in the fields of \<^verbatim>\<open>ValidationManager\<close>. A value is one of Python's
  \<^verbatim>\<open>None\<close>, \<^verbatim>\<open>bool\<close>, \<^verbatim>\<open>int\<close>, \<^verbatim>\<open>float\<close>, \<^verbatim>\<open>str\<close>, \<^verbatim>\<open>list\<close> and \<^verbatim>\<open>dict\<close>. A
  \<^verbatim>\<open>dict\<close> read from JSON has string keys; it is an association list in insertion
  order, whose keys are distinct. A finite float is written as the rational it denotes
  (\<^verbatim>\<open>nan\<close> and the infinities are left out).
\<close>

datatype json =
    JNull
  | JBool bool
  | JInt int
  | JFloat rat
  | JStr string
  | JList "json list"
  | JObj "(string \<times> json) list"

text \<open>
  The exceptions the program can raise: the two \<^verbatim>\<open>raise FileNotFoundError\<close> of
  \<^verbatim>\<open>resume_from_session\<close>, and those Python raises on its own when a value has not the
  type an operation needs, a key is missing or the operating system refuses.
\<close>

datatype error =
    KeyError json
  | TypeError
  | AttributeError
  | FileNotFoundError
  | OSError
  | JSONDecodeError

definition bnd :: "error + 'a \<Rightarrow> ('a \<Rightarrow> error + 'b) \<Rightarrow> error + 'b" where
  \<comment> \<open>Sequencing: an exception of the first statement skips the rest.\<close>
  "bnd r f = (case r of Inl e \<Rightarrow> Inl e | Inr x \<Rightarrow> f x)"

fun truthy :: "json \<Rightarrow> bool" where
  \<comment> \<open>Python's truth value, as \<^verbatim>\<open>if x\<close> and \<^verbatim>\<open>not x\<close> read it.\<close>
  "truthy JNull = False"
| "truthy (JBool b) = b"
| "truthy (JInt i) = (i \<noteq> 0)"
| "truthy (JFloat r) = (r \<noteq> 0)"
| "truthy (JStr s) = (s \<noteq> [])"
| "truthy (JList xs) = (xs \<noteq> [])"
| "truthy (JObj kvs) = (kvs \<noteq> [])"

fun starts_with :: "string \<Rightarrow> string \<Rightarrow> bool" where
  "starts_with [] s = True"
| "starts_with (c # k) [] = False"
| "starts_with (c # k) (d # s) = (c = d \<and> starts_with k s)"

fun substring :: "string \<Rightarrow> string \<Rightarrow> bool" where
  "substring k [] = (k = [])"
| "substring k (d # s) = (starts_with k (d # s) \<or> substring k s)"

fun py_contains :: "string \<Rightarrow> json \<Rightarrow> error + bool" where
  \<comment> \<open>\<^verbatim>\<open>'k' in v\<close>: a key of a dict, an element of a list, a substring of a string.\<close>
  "py_contains k (JObj kvs) = Inr (map_of kvs k \<noteq> None)"
| "py_contains k (JList xs) = Inr (JStr k \<in> set xs)"
| "py_contains k (JStr s) = Inr (substring k s)"
| "py_contains k v = Inl TypeError"

fun py_getitem :: "json \<Rightarrow> string \<Rightarrow> error + json" where
  \<comment> \<open>\<^verbatim>\<open>v['k']\<close>: only a dict takes a string subscript.\<close>
  "py_getitem (JObj kvs) k = (case map_of kvs k of None \<Rightarrow> Inl (KeyError (JStr k)) | Some v \<Rightarrow> Inr v)"
| "py_getitem v k = Inl TypeError"

fun py_get :: "json \<Rightarrow> string \<Rightarrow> json \<Rightarrow> error + json" where
  \<comment> \<open>\<^verbatim>\<open>v.get('k', d)\<close>: only a dict has the method.\<close>
  "py_get (JObj kvs) k d = Inr (case map_of kvs k of None \<Rightarrow> d | Some v \<Rightarrow> v)"
| "py_get v k d = Inl AttributeError"

fun py_iter :: "json \<Rightarrow> error + json list" where
  \<comment> \<open>What \<^verbatim>\<open>for x in v\<close> visits: the elements of a list, the keys of a dict, the
      characters of a string.\<close>
  "py_iter (JList xs) = Inr xs"
| "py_iter (JObj kvs) = Inr (map (\<lambda>kv. JStr (fst kv)) kvs)"
| "py_iter (JStr s) = Inr (map (\<lambda>c. JStr [c]) s)"
| "py_iter v = Inl TypeError"

fun py_len :: "json \<Rightarrow> error + nat" where
  "py_len (JList xs) = Inr (length xs)"
| "py_len (JObj kvs) = Inr (length kvs)"
| "py_len (JStr s) = Inr (length s)"
| "py_len v = Inl TypeError"

fun py_items :: "json \<Rightarrow> error + (string \<times> json) list" where
  "py_items (JObj kvs) = Inr kvs"
| "py_items v = Inl AttributeError"

fun py_copy :: "json \<Rightarrow> error + json" where
  \<comment> \<open>\<^verbatim>\<open>v.copy()\<close>: lists and dicts have the method. The copy is shallow; the model has
      no sharing, every update below builds a new value.\<close>
  "py_copy (JList xs) = Inr (JList xs)"
| "py_copy (JObj kvs) = Inr (JObj kvs)"
| "py_copy v = Inl AttributeError"

fun py_append :: "json \<Rightarrow> json \<Rightarrow> error + json" where
  "py_append (JList xs) x = Inr (JList (xs @ [x]))"
| "py_append v x = Inl AttributeError"

fun dict_set :: "string \<Rightarrow> json \<Rightarrow> (string \<times> json) list \<Rightarrow> (string \<times> json) list" where
  \<comment> \<open>\<^verbatim>\<open>d['k'] = v\<close>: an existing key keeps its place, a new one goes last.\<close>
  "dict_set k v [] = [(k, v)]"
| "dict_set k v (p # ps) = (if fst p = k then (k, v) # ps else p # dict_set k v ps)"

fun py_setitem :: "json \<Rightarrow> string \<Rightarrow> json \<Rightarrow> error + json" where
  "py_setitem (JObj kvs) k v = Inr (JObj (dict_set k v kvs))"
| "py_setitem d k v = Inl TypeError"

subsection \<open>Hashable values as set elements and dictionary keys\<close>

text \<open>
  \<^verbatim>\<open>completed_transitions\<close> is a Python set and \<^verbatim>\<open>material_lookup\<close> a dict whose keys
  are whatever the data holds under \<^verbatim>\<open>barcode\<close>. Lists and dicts are unhashable
  (\<^verbatim>\<open>TypeError\<close>); the other values compare as Python compares them, numbers by value
  (\<^verbatim>\<open>1 == 1.0 == True\<close>).
\<close>

fun hashable :: "json \<Rightarrow> bool" where
  "hashable (JList xs) = False"
| "hashable (JObj kvs) = False"
| "hashable v = True"

fun num_val :: "json \<Rightarrow> rat option" where
  "num_val (JBool b) = Some (if b then 1 else 0)"
| "num_val (JInt i) = Some (of_int i)"
| "num_val (JFloat r) = Some r"
| "num_val v = None"

definition key_eq :: "json \<Rightarrow> json \<Rightarrow> bool" where
  "key_eq a b =
     (case num_val a of
        Some x \<Rightarrow> (case num_val b of Some y \<Rightarrow> x = y | None \<Rightarrow> False)
      | None \<Rightarrow> (case num_val b of Some y \<Rightarrow> False | None \<Rightarrow> a = b))"

fun in_keys :: "json \<Rightarrow> json list \<Rightarrow> bool" where
  "in_keys x [] = False"
| "in_keys x (y # ys) = (key_eq y x \<or> in_keys x ys)"

definition set_member :: "json \<Rightarrow> json list \<Rightarrow> error + bool" where
  \<comment> \<open>\<^verbatim>\<open>x in s\<close> for a set \<^verbatim>\<open>s\<close>, kept as the list of its elements.\<close>
  "set_member x s = (if hashable x then Inr (in_keys x s) else Inl TypeError)"

definition set_add :: "json \<Rightarrow> json list \<Rightarrow> error + json list" where
  \<comment> \<open>\<^verbatim>\<open>s.add(x)\<close>\<close>
  "set_add x s =
     (if hashable x then Inr (if in_keys x s then s else s @ [x]) else Inl TypeError)"

fun tbl_get :: "(json \<times> json) list \<Rightarrow> json \<Rightarrow> json option" where
  "tbl_get [] k = None"
| "tbl_get (p # ps) k = (if key_eq (fst p) k then Some (snd p) else tbl_get ps k)"

fun tbl_put :: "json \<Rightarrow> json \<Rightarrow> (json \<times> json) list \<Rightarrow> (json \<times> json) list" where
  "tbl_put k v [] = [(k, v)]"
| "tbl_put k v (p # ps) = (if key_eq (fst p) k then (fst p, v) # ps else p # tbl_put k v ps)"

definition tbl_setitem :: "json \<Rightarrow> json \<Rightarrow> (json \<times> json) list \<Rightarrow> error + (json \<times> json) list" where
  \<comment> \<open>\<^verbatim>\<open>d[k] = v\<close> for a dict with keys of any hashable type.\<close>
  "tbl_setitem k v t = (if hashable k then Inr (tbl_put k v t) else Inl TypeError)"

subsection \<open>Formatting\<close>

function show_nat :: "nat \<Rightarrow> string" where
  \<comment> \<open>\<^verbatim>\<open>str(i)\<close> for an index \<^verbatim>\<open>i \<ge> 0\<close>: its decimal digits.\<close>
  "show_nat n =
     (if n < 10 then [''0123456789'' ! n]
      else show_nat (n div 10) @ [''0123456789'' ! (n mod 10)])"
  by pat_completeness auto
termination
  by (relation "measure id") auto

declare show_nat.simps [simp del]

definition show_int :: "int \<Rightarrow> string" where
  "show_int i = (if i < 0 then CHR ''-'' # show_nat (nat (- i)) else show_nat (nat i))"

text \<open>
  What the program takes from Python's library and runtime. None of it is code of the
  repository, so it is a parameter of the model: \<open>repr_of\<close> is \<^verbatim>\<open>str\<close> of a float,
  list or dict; \<open>seed_of\<close> is the generator state \<^verbatim>\<open>random.seed(a)\<close> installs;
  \<open>randbelow g n\<close> is the draw \<^verbatim>\<open>random.shuffle\<close> makes for a bound \<open>n\<close> (CPython's
  \<^verbatim>\<open>_randbelow\<close>, which returns a number below \<open>n\<close>) with the state it leaves;
  \<open>strftime\<close> and \<open>isoformat\<close> print an instant as \<^verbatim>\<open>%Y%m%d_%H%M%S\<close> and in ISO
  format; \<open>joinpath\<close> and \<open>parent\<close> are \<^verbatim>\<open>pathlib\<close>'s \<^verbatim>\<open>/\<close> and \<^verbatim>\<open>.parent\<close>.
\<close>

record 'g pylib =
  repr_of :: "json \<Rightarrow> string"
  seed_of :: "json \<Rightarrow> 'g"
  randbelow :: "'g \<Rightarrow> nat \<Rightarrow> nat \<times> 'g"
  strftime :: "nat \<Rightarrow> string"
  isoformat :: "nat \<Rightarrow> string"
  joinpath :: "string \<Rightarrow> string \<Rightarrow> string"
  parent :: "string \<Rightarrow> string"

fun py_str :: "'g pylib \<Rightarrow> json \<Rightarrow> string" where
  \<comment> \<open>How an f-string prints a value.\<close>
  "py_str L (JStr s) = s"
| "py_str L (JInt i) = show_int i"
| "py_str L (JBool b) = (if b then ''True'' else ''False'')"
| "py_str L JNull = ''None''"
| "py_str L v = repr_of L v"

section \<open>The name table and name resolution\<close>

text \<open>
  \<^verbatim>\<open>_resolve_barcode_to_name\<close> (lines 260 to 270): a string is looked up in
  \<^verbatim>\<open>material_lookup\<close>, a list and a dict are rebuilt from their resolved members, any
  other value is returned as it is.
\<close>

fun resolve_barcode_to_name :: "(json \<times> json) list \<Rightarrow> json \<Rightarrow> json" where
  "resolve_barcode_to_name tbl (JStr s) =
     (case tbl_get tbl (JStr s) of None \<Rightarrow> JStr s | Some n \<Rightarrow> n)"
| "resolve_barcode_to_name tbl (JList xs) = JList (map (resolve_barcode_to_name tbl) xs)"
| "resolve_barcode_to_name tbl (JObj kvs) =
     JObj (map (\<lambda>(k, v). (k, resolve_barcode_to_name tbl v)) kvs)"
| "resolve_barcode_to_name tbl v = v"

text \<open>
  For stating what resolution does to a nested value: whether a value holds a string
  the table knows (as a scalar; dict keys are never looked up), and the value found at
  a position, a position being the list indices and dict keys on the way down.
\<close>

fun has_known :: "(json \<times> json) list \<Rightarrow> json \<Rightarrow> bool" where
  "has_known tbl (JStr s) = (tbl_get tbl (JStr s) \<noteq> None)"
| "has_known tbl (JList xs) = (\<exists>x \<in> set xs. has_known tbl x)"
| "has_known tbl (JObj kvs) = (\<exists>kv \<in> set kvs. has_known tbl (snd kv))"
| "has_known tbl v = False"

datatype step = Idx nat | Key string

fun subvalue :: "json \<Rightarrow> step list \<Rightarrow> json option" where
  "subvalue v [] = Some v"
| "subvalue (JList xs) (Idx i # p) = (if i < length xs then subvalue (xs ! i) p else None)"
| "subvalue (JObj kvs) (Key k # p) =
     (case map_of kvs k of None \<Rightarrow> None | Some u \<Rightarrow> subvalue u p)"
| "subvalue v (s # p) = None"

fun is_plain_scalar :: "json \<Rightarrow> bool" where
  "is_plain_scalar JNull = True"
| "is_plain_scalar (JBool b) = True"
| "is_plain_scalar (JInt i) = True"
| "is_plain_scalar (JFloat r) = True"
| "is_plain_scalar v = False"

section \<open>The environment: files, faults, console, clock, generator\<close>

text \<open>
  A file holds a JSON document or text that \<^verbatim>\<open>json.load\<close> rejects (\<open>Garbled\<close>; a file
  just opened for writing is empty, hence garbled, until \<^verbatim>\<open>json.dump\<close> is through).
  Paths are compared as strings. Input and output can fail for reasons outside the
  program: \<open>faults\<close> fixes in advance which of the coming operations fail, one entry
  per operation (the empty list: none fails). \<open>console\<close> collects what \<^verbatim>\<open>print\<close>
  writes, \<open>clock\<close> is what \<^verbatim>\<open>datetime.datetime.now()\<close> returns, \<open>rng\<close> is the state of
  the module-level generator of \<^verbatim>\<open>random\<close>.
\<close>

datatype content = Garbled | Stored json

datatype log =
    LoadedTransitions nat
  | BuiltLookup nat
  | UsingSeed json
  | Randomized nat
  | InitializedSession string
  | ResumedFrom string
  | ResumeProgress nat nat
  | SavedPlausible json
  | SavedImplausible json nat

record 'g world =
  files :: "string \<rightharpoonup> content"
  faults :: "bool list"
  console :: "log list"
  clock :: nat
  rng :: 'g

definition thn ::
  "('s \<Rightarrow> (error + 'a) \<times> 's) \<Rightarrow> ('a \<Rightarrow> 's \<Rightarrow> (error + 'b) \<times> 's) \<Rightarrow> 's \<Rightarrow> (error + 'b) \<times> 's" where
  \<comment> \<open>One statement after another on a state: an exception ends the run and leaves
      the state as it was when it was raised.\<close>
  "thn p f s = (case p s of (Inl e, s1) \<Rightarrow> (Inl e, s1) | (Inr x, s1) \<Rightarrow> f x s1)"

definition lift :: "error + 'a \<Rightarrow> 's \<Rightarrow> (error + 'a) \<times> 's" where
  "lift r s = (r, s)"

definition io_fault :: "'g world \<Rightarrow> (error + unit) \<times> 'g world" where
  "io_fault w =
     (case faults w of
        [] \<Rightarrow> (Inr (), w)
      | b # bs \<Rightarrow> (if b then Inl OSError else Inr (), w\<lparr>faults := bs\<rparr>))"

definition read_json :: "string \<Rightarrow> 'g world \<Rightarrow> (error + json) \<times> 'g world" where
  \<comment> \<open>\<^verbatim>\<open>with open(path, 'r') as f: json.load(f)\<close>\<close>
  "read_json path =
     thn io_fault (\<lambda>_ w.
       case files w path of
         None \<Rightarrow> (Inl FileNotFoundError, w)
       | Some Garbled \<Rightarrow> (Inl JSONDecodeError, w)
       | Some (Stored j) \<Rightarrow> (Inr j, w))"

definition write_json :: "string \<Rightarrow> json \<Rightarrow> 'g world \<Rightarrow> (error + unit) \<times> 'g world" where
  \<comment> \<open>\<^verbatim>\<open>with open(path, 'w') as f: json.dump(j, f, indent=2)\<close>: opening truncates the
      file, dumping fills it.\<close>
  "write_json path j =
     thn io_fault (\<lambda>_.
     thn (\<lambda>w. (Inr (), w\<lparr>files := (files w)(path \<mapsto> Garbled)\<rparr>)) (\<lambda>_.
     thn io_fault (\<lambda>_ w. (Inr (), w\<lparr>files := (files w)(path \<mapsto> Stored j)\<rparr>))))"

definition say :: "log \<Rightarrow> 'g world \<Rightarrow> (error + unit) \<times> 'g world" where
  "say l w = (Inr (), w\<lparr>console := console w @ [l]\<rparr>)"

section \<open>The manager\<close>

record manager =
  data_file :: string
  results_dir :: string
  session_name :: json
  random_seed :: json
  session_id :: json
  session_file :: string
  transitions :: json
  current_transitions :: json
  completed_transitions :: "json list"
  session_validations :: json
  error_categories :: json
  metadata :: json
  material_lookup :: "(json \<times> json) list"

subsection \<open>Loading: \<^verbatim>\<open>_load_data\<close> (lines 104 to 129)\<close>

definition make_transition :: "'g pylib \<Rightarrow> json \<Rightarrow> nat \<Rightarrow> json \<Rightarrow> error + json" where
  \<comment> \<open>The dict literal of lines 114 to 122; its values are evaluated in order.\<close>
  "make_transition L comparison i prediction =
     bnd (py_getitem comparison ''transition_id'') (\<lambda>tid.
     bnd (py_getitem comparison ''transition_id'') (\<lambda>orig.
     bnd (py_getitem comparison ''action'') (\<lambda>action.
     bnd (py_getitem comparison ''input_materials'') (\<lambda>materials.
     bnd (py_getitem comparison ''input_observations'') (\<lambda>observations.
       Inr (JObj
         [(''transition_id'', JStr (py_str L tid @ ''_'' @ show_nat i)),
          (''original_transition_id'', orig),
          (''prediction_index'', JInt (int i)),
          (''action'', action),
          (''input_materials'', materials),
          (''input_observations'', observations),
          (''prediction'', prediction)]))))))"

fun load_predictions ::
  "'g pylib \<Rightarrow> json \<Rightarrow> nat \<Rightarrow> json list \<Rightarrow> json list \<Rightarrow> error + json list" where
  \<comment> \<open>The inner loop (lines 112 to 123); the last argument is \<^verbatim>\<open>self.transitions\<close>.\<close>
  "load_predictions L comparison i [] acc = Inr acc"
| "load_predictions L comparison i (prediction # rest) acc =
     bnd (py_get prediction ''error'' JNull) (\<lambda>e.
       if \<not> truthy e
       then bnd (make_transition L comparison i prediction) (\<lambda>t.
              load_predictions L comparison (Suc i) rest (acc @ [t]))
       else load_predictions L comparison (Suc i) rest acc)"

fun load_comparisons :: "'g pylib \<Rightarrow> json list \<Rightarrow> json list \<Rightarrow> error + json list" where
  \<comment> \<open>The outer loop (line 111).\<close>
  "load_comparisons L [] acc = Inr acc"
| "load_comparisons L (comparison # rest) acc =
     bnd (py_getitem comparison ''predictions'') (\<lambda>ps.
     bnd (py_iter ps) (\<lambda>predictions.
     bnd (load_predictions L comparison 0 predictions acc) (\<lambda>acc'.
       load_comparisons L rest acc')))"

definition extract_transitions :: "'g pylib \<Rightarrow> json \<Rightarrow> error + json" where
  \<comment> \<open>Lines 109 to 126: what \<^verbatim>\<open>self.transitions\<close> is after them.\<close>
  "extract_transitions L data =
     bnd (py_contains ''comparisons'' data) (\<lambda>has.
       if has
       then bnd (py_getitem data ''comparisons'') (\<lambda>cs.
            bnd (py_iter cs) (\<lambda>comparisons.
            bnd (load_comparisons L comparisons []) (\<lambda>ts. Inr (JList ts))))
       else py_get data ''transitions'' (JList []))"

definition load_data ::
  "'g pylib \<Rightarrow> string \<Rightarrow> 'g world \<Rightarrow> (error + json \<times> json) \<times> 'g world" where
  \<comment> \<open>Returns \<^verbatim>\<open>self.transitions\<close> and \<^verbatim>\<open>self.metadata\<close>.\<close>
  "load_data L path =
     thn (read_json path) (\<lambda>data.
     thn (lift (extract_transitions L data)) (\<lambda>ts.
     thn (lift (py_get data ''metadata'' (JObj []))) (\<lambda>md.
     thn (lift (py_len ts)) (\<lambda>n.
     thn (say (LoadedTransitions n)) (\<lambda>_.
       lift (Inr (ts, md)))))))"

subsection \<open>The name table: \<^verbatim>\<open>_build_material_lookup\<close> (lines 131 to 148)\<close>

definition add_material :: "(json \<times> json) list \<Rightarrow> json \<Rightarrow> error + (json \<times> json) list" where
  \<comment> \<open>Lines 139 and 140 (again 145 and 146); the assignment evaluates its right side
      before the subscript.\<close>
  "add_material tbl material =
     bnd (py_contains ''barcode'' material) (\<lambda>has_barcode.
       if \<not> has_barcode then Inr tbl
       else bnd (py_contains ''name'' material) (\<lambda>has_name.
         if \<not> has_name then Inr tbl
         else bnd (py_getitem material ''name'') (\<lambda>name.
              bnd (py_getitem material ''barcode'') (\<lambda>barcode.
                tbl_setitem barcode name tbl))))"

fun add_materials :: "(json \<times> json) list \<Rightarrow> json list \<Rightarrow> error + (json \<times> json) list" where
  "add_materials tbl [] = Inr tbl"
| "add_materials tbl (material # rest) =
     bnd (add_material tbl material) (\<lambda>tbl'. add_materials tbl' rest)"

definition lookup_of_transition ::
  "(json \<times> json) list \<Rightarrow> json \<Rightarrow> error + (json \<times> json) list" where
  \<comment> \<open>The body of the loop over \<^verbatim>\<open>self.transitions\<close>.\<close>
  "lookup_of_transition tbl transition =
     bnd (py_get transition ''input_materials'' JNull) (\<lambda>given.
     bnd (if truthy given
          then bnd (py_getitem transition ''input_materials'') (\<lambda>ms.
               bnd (py_iter ms) (add_materials tbl))
          else Inr tbl) (\<lambda>tbl1.
     bnd (py_get transition ''prediction'' (JObj [])) (\<lambda>p1.
     bnd (py_get p1 ''prediction'' (JObj [])) (\<lambda>p2.
     bnd (py_get p2 ''new_materials'' (JList [])) (\<lambda>pred_materials.
     bnd (py_iter pred_materials) (add_materials tbl1))))))"

fun lookup_of_transitions ::
  "(json \<times> json) list \<Rightarrow> json list \<Rightarrow> error + (json \<times> json) list" where
  "lookup_of_transitions tbl [] = Inr tbl"
| "lookup_of_transitions tbl (transition # rest) =
     bnd (lookup_of_transition tbl transition) (\<lambda>tbl'. lookup_of_transitions tbl' rest)"

definition build_material_lookup ::
  "json \<Rightarrow> 'g world \<Rightarrow> (error + (json \<times> json) list) \<times> 'g world" where
  "build_material_lookup ts =
     thn (lift (bnd (py_iter ts) (lookup_of_transitions []))) (\<lambda>tbl.
     thn (say (BuiltLookup (length tbl))) (\<lambda>_.
       lift (Inr tbl)))"

subsection \<open>The order: \<^verbatim>\<open>_randomize_transitions\<close> (lines 150 to 159)\<close>

text \<open>
  \<^verbatim>\<open>random.shuffle(x)\<close> is CPython's loop
  \<^verbatim>\<open>for i in reversed(range(1, len(x))): j = randbelow(i + 1); x[i], x[j] = x[j], x[i]\<close>.
  \<open>shuffle_from rb i g xs\<close> runs it from index \<open>i\<close> down to 1.
\<close>

fun shuffle_from :: "('g \<Rightarrow> nat \<Rightarrow> nat \<times> 'g) \<Rightarrow> nat \<Rightarrow> 'g \<Rightarrow> 'a list \<Rightarrow> 'a list \<times> 'g" where
  "shuffle_from rb 0 g xs = (xs, g)"
| "shuffle_from rb (Suc i) g xs =
     (case rb g (Suc (Suc i)) of
        (j, g') \<Rightarrow> shuffle_from rb i g' (xs[Suc i := xs ! j, j := xs ! Suc i]))"

definition shuffle :: "('g \<Rightarrow> nat \<Rightarrow> nat \<times> 'g) \<Rightarrow> 'g \<Rightarrow> 'a list \<Rightarrow> 'a list \<times> 'g" where
  "shuffle rb g xs = shuffle_from rb (length xs - 1) g xs"

definition seed_random :: "'g pylib \<Rightarrow> json \<Rightarrow> 'g world \<Rightarrow> (error + unit) \<times> 'g world" where
  \<comment> \<open>\<^verbatim>\<open>random.seed(a)\<close> for \<^verbatim>\<open>a\<close> other than \<^verbatim>\<open>None\<close>: a list or a dict is refused.\<close>
  "seed_random L a w =
     (if hashable a then (Inr (), w\<lparr>rng := seed_of L a\<rparr>) else (Inl TypeError, w))"

definition shuffle_copy :: "'g pylib \<Rightarrow> json \<Rightarrow> 'g world \<Rightarrow> (error + json) \<times> 'g world" where
  \<comment> \<open>Lines 157 and 158. A dict has \<^verbatim>\<open>copy\<close> too; shuffling one of two or more entries
      fails at the first \<^verbatim>\<open>x[j]\<close>, since its keys are strings.\<close>
  "shuffle_copy L ts w =
     (case ts of
        JList xs \<Rightarrow>
          (case shuffle (randbelow L) (rng w) xs of
             (ys, g') \<Rightarrow> (Inr (JList ys), w\<lparr>rng := g'\<rparr>))
      | JObj kvs \<Rightarrow>
          (if length kvs \<le> 1 then (Inr (JObj kvs), w)
           else (case randbelow L (rng w) (length kvs) of
                   (j, g') \<Rightarrow> (Inl (KeyError (JInt (int j))), w\<lparr>rng := g'\<rparr>)))
      | _ \<Rightarrow> (Inl AttributeError, w))"

definition randomize_transitions ::
  "'g pylib \<Rightarrow> json \<Rightarrow> json \<Rightarrow> 'g world \<Rightarrow> (error + json) \<times> 'g world" where
  \<comment> \<open>From \<^verbatim>\<open>self.random_seed\<close> and \<^verbatim>\<open>self.transitions\<close> to
      \<^verbatim>\<open>self.current_transitions\<close>.\<close>
  "randomize_transitions L seed ts =
     thn (if seed \<noteq> JNull
          then thn (seed_random L seed) (\<lambda>_. say (UsingSeed seed))
          else lift (Inr ())) (\<lambda>_.
     thn (shuffle_copy L ts) (\<lambda>cur.
     thn (lift (py_len cur)) (\<lambda>n.
     thn (say (Randomized n)) (\<lambda>_.
       lift (Inr cur)))))"

subsection \<open>Construction: \<^verbatim>\<open>__init__\<close> (lines 25 to 102) and \<^verbatim>\<open>_initialize_session_file\<close>\<close>

definition category :: "string \<Rightarrow> string \<Rightarrow> string \<Rightarrow> json" where
  "category i l d = JObj [(''id'', JStr i), (''label'', JStr l), (''description'', JStr d)]"

definition default_error_categories :: json where
  \<comment> \<open>The literal of lines 46 to 97.\<close>
  "default_error_categories = JList
     [
      category ''materials_missing'' ''Missing Expected Materials''
        ''Expected materials were not predicted'',
      category ''materials_incorrect'' ''Incorrect Material Properties''
        (''Material properties don'' @ [CHR 0x27] @ ''t match expected values''),
      category ''materials_extra'' ''Unexpected Materials''
        (''Materials predicted that shouldn'' @ [CHR 0x27] @ ''t exist''),
      category ''observations_missing'' ''Missing Expected Observations''
        ''Expected observations were not predicted'',
      category ''observations_incorrect'' ''Incorrect Observation Values''
        (''Observation values don'' @ [CHR 0x27] @ ''t match expected results''),
      category ''observations_extra'' ''Unexpected Observations''
        (''Observations predicted that shouldn'' @ [CHR 0x27] @ ''t occur''),
      category ''timing_wrong'' ''Incorrect Timing''
        ''Events predicted at wrong time points'',
      category ''physical_impossible'' ''Physically Impossible''
        ''Predictions violate physical laws or constraints'',
      category ''reasoning_flawed'' ''Flawed Reasoning''
        (''Logical errors in the model'' @ [CHR 0x27] @ ''s reasoning''),
      category ''context_ignored'' ''Context Ignored''
        ''Model ignored important contextual information'']"

definition session_label :: "string option \<Rightarrow> string \<Rightarrow> string" where
  \<comment> \<open>\<^verbatim>\<open>session_id\<close> (lines 34 to 39): the name, when it is given and not empty, then
      the timestamp.\<close>
  "session_label name timestamp =
     (case name of
        None \<Rightarrow> timestamp
      | Some n \<Rightarrow> if n = [] then timestamp else n @ ''_'' @ timestamp)"

definition now :: "'g world \<Rightarrow> (error + nat) \<times> 'g world" where
  "now w = (Inr (clock w), w)"

definition initialize_session_file ::
  "'g pylib \<Rightarrow> manager \<Rightarrow> 'g world \<Rightarrow> (error + unit) \<times> 'g world" where
  "initialize_session_file L m =
     thn now (\<lambda>t.
     thn (lift (py_len (current_transitions m))) (\<lambda>n.
     thn (write_json (session_file m) (JObj
            [(''session_id'', session_id m),
             (''session_name'', session_name m),
             (''random_seed'', random_seed m),
             (''start_time'', JStr (isoformat L t)),
             (''source_data_file'', JStr (data_file m)),
             (''total_transitions'', JInt (int n)),
             (''metadata'', metadata m),
             (''error_categories'', error_categories m),
             (''validations'', JList [])])) (\<lambda>_.
       say (InitializedSession (session_file m)))))"

definition init ::
  "'g pylib \<Rightarrow> string \<Rightarrow> string \<Rightarrow> string option \<Rightarrow> int option \<Rightarrow> 'g world
    \<Rightarrow> (error + manager) \<times> 'g world" where
  \<comment> \<open>\<^verbatim>\<open>ValidationManager(data_file, results_dir, session_name, random_seed)\<close>. The first
      step is \<^verbatim>\<open>mkdir(exist_ok=True)\<close>: directories are not kept in the model, the call
      can only fail as any operation of the system can.\<close>
  "init L data results name seed =
     thn io_fault (\<lambda>_.
     thn now (\<lambda>t.
     thn (load_data L data) (\<lambda>(ts, md).
     thn (build_material_lookup ts) (\<lambda>tbl.
     thn (randomize_transitions L (case seed of None \<Rightarrow> JNull | Some i \<Rightarrow> JInt i) ts) (\<lambda>cur.
       let m = \<lparr> data_file = data,
                 results_dir = results,
                 session_name = (case name of None \<Rightarrow> JNull | Some n \<Rightarrow> JStr n),
                 random_seed = (case seed of None \<Rightarrow> JNull | Some i \<Rightarrow> JInt i),
                 session_id = JStr (session_label name (strftime L t)),
                 session_file =
                   joinpath L results
                     (''validation_session_'' @ session_label name (strftime L t) @ ''.json''),
                 transitions = ts,
                 current_transitions = cur,
                 completed_transitions = [],
                 session_validations = JList [],
                 error_categories = default_error_categories,
                 metadata = md,
                 material_lookup = tbl \<rparr>
       in thn (initialize_session_file L m) (\<lambda>_. lift (Inr m)))))))"

subsection \<open>Resuming: \<^verbatim>\<open>resume_from_session\<close> (lines 180 to 233)\<close>

definition path_exists :: "string \<Rightarrow> 'g world \<Rightarrow> bool" where
  "path_exists p w = (files w p \<noteq> None)"

definition source_data_file ::
  "json \<Rightarrow> string option \<Rightarrow> 'g world \<Rightarrow> (error + string) \<times> 'g world" where
  \<comment> \<open>Lines 192 to 195. \<^verbatim>\<open>os.path.exists\<close> takes an integer for a file descriptor;
      descriptors are not kept in the model and count as missing.\<close>
  "source_data_file session_data given w =
     (case given of
        Some p \<Rightarrow> (Inr p, w)
      | None \<Rightarrow>
          (bnd (py_get session_data ''source_data_file'' JNull) (\<lambda>d.
             if \<not> truthy d then Inl FileNotFoundError
             else (case d of
                     JStr p \<Rightarrow> if path_exists p w then Inr p else Inl FileNotFoundError
                   | JInt i \<Rightarrow> Inl FileNotFoundError
                   | JBool b \<Rightarrow> Inl FileNotFoundError
                   | _ \<Rightarrow> Inl TypeError)), w))"

fun restore_completed :: "json list \<Rightarrow> json list \<Rightarrow> error + json list" where
  \<comment> \<open>The loop of lines 227 and 228; the first argument is the set built so far.\<close>
  "restore_completed completed_ids [] = Inr completed_ids"
| "restore_completed completed_ids (validation # rest) =
     bnd (py_getitem validation ''transition_id'') (\<lambda>tid.
     bnd (set_add tid completed_ids) (\<lambda>completed_ids'.
       restore_completed completed_ids' rest))"

definition restore_session ::
  "'g pylib \<Rightarrow> string \<Rightarrow> string option \<Rightarrow> json \<Rightarrow> 'g world \<Rightarrow> (error + manager) \<times> 'g world" where
  \<comment> \<open>Lines 191 to 233: what \<^verbatim>\<open>resume_from_session\<close> does with \<^verbatim>\<open>session_data\<close> once the
      session file is read.\<close>
  "restore_session L session_path given session_data =
     thn (source_data_file session_data given) (\<lambda>data.
     thn (lift (py_get session_data ''session_name'' JNull)) (\<lambda>name.
     thn (lift (py_get session_data ''random_seed'' (JInt 42))) (\<lambda>seed.
     thn (lift (py_getitem session_data ''session_id'')) (\<lambda>sid.
     thn (lift (py_get session_data ''error_categories'' (JList []))) (\<lambda>cats.
     thn (load_data L data) (\<lambda>(ts, md).
     thn (build_material_lookup ts) (\<lambda>tbl.
     thn (randomize_transitions L seed ts) (\<lambda>cur.
     thn (lift (py_get session_data ''validations'' (JList []))) (\<lambda>vals.
     thn (lift (bnd (py_iter vals) (restore_completed []))) (\<lambda>completed_ids.
     thn (say (ResumedFrom session_path)) (\<lambda>_.
     thn (lift (py_len cur)) (\<lambda>n.
     thn (say (ResumeProgress (length completed_ids) n)) (\<lambda>_.
       lift (Inr \<lparr> data_file = data,
                    results_dir = parent L session_path,
                    session_name = name,
                    random_seed = seed,
                    session_id = sid,
                    session_file = session_path,
                    transitions = ts,
                    current_transitions = cur,
                    completed_transitions = completed_ids,
                    session_validations = vals,
                    error_categories = cats,
                    metadata = md,
                    material_lookup = tbl \<rparr>))))))))))))))"

definition resume_from_session ::
  "'g pylib \<Rightarrow> string \<Rightarrow> string option \<Rightarrow> 'g world \<Rightarrow> (error + manager) \<times> 'g world" where
  \<comment> \<open>Lines 183 to 189, then the rest.\<close>
  "resume_from_session L session_path given =
     thn (\<lambda>w. (if path_exists session_path w then Inr () else Inl FileNotFoundError, w)) (\<lambda>_.
     thn (read_json session_path) (restore_session L session_path given))"

subsection \<open>Serving: \<^verbatim>\<open>get_next_transition\<close> and \<^verbatim>\<open>_enhance_transition_with_names\<close>\<close>

definition resolve_parameters ::
  "(json \<times> json) list \<Rightarrow> (string \<times> json) list \<Rightarrow> (string \<times> json) list" where
  \<comment> \<open>Lines 250 to 252: \<^verbatim>\<open>enhanced_params\<close>.\<close>
  "resolve_parameters tbl items =
     foldl (\<lambda>d (k, v). dict_set k (resolve_barcode_to_name tbl v) d) [] items"

definition enhance_transition_with_names ::
  "(json \<times> json) list \<Rightarrow> json \<Rightarrow> error + json" where
  \<comment> \<open>Lines 244 to 258.\<close>
  "enhance_transition_with_names tbl transition =
     bnd (py_copy transition) (\<lambda>enhanced.
     bnd (py_contains ''action'' enhanced) (\<lambda>has_action.
     bnd (if has_action
          then bnd (py_getitem enhanced ''action'') (py_contains ''parameters'')
          else Inr False) (\<lambda>has_parameters.
       if \<not> has_parameters then Inr enhanced
       else bnd (py_getitem enhanced ''action'') (\<lambda>action.
            bnd (py_getitem action ''parameters'') (\<lambda>parameters.
            bnd (py_items parameters) (\<lambda>items.
            bnd (py_copy action) (\<lambda>action1.
            bnd (py_setitem action1 ''parameters'' (JObj (resolve_parameters tbl items))) (\<lambda>action2.
            bnd (py_setitem action2 ''parameters_display'' (JObj (resolve_parameters tbl items))) (\<lambda>action3.
              py_setitem enhanced ''action'' action3)))))))))"

fun first_pending :: "json list \<Rightarrow> json list \<Rightarrow> error + json option" where
  \<comment> \<open>The scan of lines 237 and 238: the first transition whose id is not in the set.\<close>
  "first_pending completed_ids [] = Inr None"
| "first_pending completed_ids (transition # rest) =
     bnd (py_getitem transition ''transition_id'') (\<lambda>tid.
     bnd (set_member tid completed_ids) (\<lambda>seen.
       if \<not> seen then Inr (Some transition) else first_pending completed_ids rest))"

definition get_next_transition :: "manager \<Rightarrow> error + json option" where
  "get_next_transition m =
     bnd (py_iter (current_transitions m)) (\<lambda>ts.
     bnd (first_pending (completed_transitions m) ts) (\<lambda>found.
       case found of
         None \<Rightarrow> Inr None
       | Some transition \<Rightarrow>
           bnd (enhance_transition_with_names (material_lookup m) transition) (\<lambda>enhanced.
             Inr (Some enhanced))))"

subsection \<open>Recording: \<^verbatim>\<open>save_validation\<close> and \<^verbatim>\<open>_update_session_file\<close> (lines 272 to 306)\<close>

text \<open>
  A method works on the manager and the environment together. When it raises, both stay
  as they were at that statement: the manager is a module-level object and the handlers
  of later requests go on with it.
\<close>

definition modify ::
  "(manager \<Rightarrow> error + manager) \<Rightarrow> manager \<times> 'w \<Rightarrow> (error + unit) \<times> manager \<times> 'w" where
  "modify f s =
     (case f (fst s) of Inl e \<Rightarrow> (Inl e, s) | Inr m \<Rightarrow> (Inr (), (m, snd s)))"

definition with_manager ::
  "(manager \<Rightarrow> 'w \<Rightarrow> (error + 'a) \<times> 'w) \<Rightarrow> manager \<times> 'w \<Rightarrow> (error + 'a) \<times> manager \<times> 'w" where
  "with_manager p s = (case p (fst s) (snd s) of (r, w) \<Rightarrow> (r, (fst s, w)))"

definition progress_percentage :: "manager \<Rightarrow> error + json" where
  \<comment> \<open>Line 303. The quotient is a float; the model keeps the exact quotient, which
      Python rounds to the nearest double.\<close>
  "progress_percentage m =
     (if truthy (current_transitions m)
      then bnd (py_len (current_transitions m)) (\<lambda>n.
             Inr (JFloat (of_nat (length (completed_transitions m)) / of_nat n * 100)))
      else Inr (JInt 0))"

definition update_session_file ::
  "'g pylib \<Rightarrow> manager \<Rightarrow> 'g world \<Rightarrow> (error + unit) \<times> 'g world" where
  "update_session_file L m =
     thn (read_json (session_file m)) (\<lambda>session_data.
     thn (lift (py_setitem session_data ''validations'' (session_validations m))) (\<lambda>d1.
     thn now (\<lambda>t.
     thn (lift (py_setitem d1 ''last_updated'' (JStr (isoformat L t)))) (\<lambda>d2.
     thn (lift (py_setitem d2 ''completed_transitions''
                  (JInt (int (length (completed_transitions m)))))) (\<lambda>d3.
     thn (lift (progress_percentage m)) (\<lambda>pct.
     thn (lift (py_setitem d3 ''progress_percentage'' pct)) (\<lambda>d4.
       write_json (session_file m) d4)))))))"

definition validation_result ::
  "'g pylib \<Rightarrow> nat \<Rightarrow> json \<Rightarrow> json \<Rightarrow> json \<Rightarrow> json \<Rightarrow> json \<Rightarrow> json \<Rightarrow> json \<Rightarrow> error + json" where
  \<comment> \<open>The dict literal of lines 276 to 286, at the instant \<open>t\<close>.\<close>
  "validation_result L t tid is_plausible categories custom_error comments confidence
       transition_data =
     bnd (if truthy transition_data
          then bnd (py_get transition_data ''prediction'' (JObj [])) (\<lambda>p.
                 py_get p ''config'' (JObj []))
          else Inr (JObj [])) (\<lambda>config.
       Inr (JObj
         [(''transition_id'', tid),
          (''timestamp'', JStr (isoformat L t)),
          (''is_plausible'', is_plausible),
          (''error_categories'', categories),
          (''custom_error'', custom_error),
          (''comments'', comments),
          (''confidence'', confidence),
          (''transition_data'', transition_data),
          (''prediction_config'', config)]))"

definition save_validation ::
  "'g pylib \<Rightarrow> json \<Rightarrow> json \<Rightarrow> json \<Rightarrow> json \<Rightarrow> json \<Rightarrow> json \<Rightarrow> json
    \<Rightarrow> manager \<times> 'g world \<Rightarrow> (error + unit) \<times> manager \<times> 'g world" where
  "save_validation L tid is_plausible categories custom_error comments confidence
       transition_data =
     thn (with_manager (\<lambda>m. now)) (\<lambda>t.
     thn (lift (validation_result L t tid is_plausible categories custom_error comments
                  confidence transition_data)) (\<lambda>result.
     thn (modify (\<lambda>m. bnd (py_append (session_validations m) result) (\<lambda>vs.
                   Inr (m\<lparr>session_validations := vs\<rparr>)))) (\<lambda>_.
     thn (with_manager (update_session_file L)) (\<lambda>_.
     thn (modify (\<lambda>m. bnd (set_add tid (completed_transitions m)) (\<lambda>c.
                   Inr (m\<lparr>completed_transitions := c\<rparr>)))) (\<lambda>_.
       if truthy is_plausible
       then with_manager (\<lambda>m. say (SavedPlausible tid))
       else thn (lift (py_len categories)) (\<lambda>n.
              with_manager (\<lambda>m. say (SavedImplausible tid n))))))))"

subsection \<open>Progress and the request handlers (lines 308 to 362)\<close>

record progress =
  completed :: int
  total :: int
  remaining :: int

definition get_progress :: "manager \<Rightarrow> error + progress" where
  "get_progress m =
     bnd (py_len (current_transitions m)) (\<lambda>n.
       Inr \<lparr> completed = int (length (completed_transitions m)),
             total = int n,
             remaining = int n - int (length (completed_transitions m)) \<rparr>)"

definition validate ::
  "'g pylib \<Rightarrow> json \<Rightarrow> manager \<times> 'g world \<Rightarrow> (error + unit) \<times> manager \<times> 'g world" where
  \<comment> \<open>The handler of \<^verbatim>\<open>POST /validate\<close>; \<open>data\<close> is \<^verbatim>\<open>request.json\<close>.\<close>
  "validate L data =
     thn (lift (py_getitem data ''transition_id'')) (\<lambda>tid.
     thn (lift (py_getitem data ''is_plausible'')) (\<lambda>is_plausible.
     thn (lift (py_get data ''error_categories'' (JList []))) (\<lambda>categories.
     thn (lift (py_get data ''custom_error'' (JStr []))) (\<lambda>custom_error.
     thn (lift (py_get data ''comments'' (JStr []))) (\<lambda>comments.
     thn (lift (py_get data ''confidence'' JNull)) (\<lambda>confidence.
     thn (lift (py_get data ''transition_data'' JNull)) (\<lambda>transition_data.
       save_validation L tid is_plausible categories custom_error comments confidence
         transition_data)))))))"

definition skip :: "json \<Rightarrow> manager \<times> 'w \<Rightarrow> (error + unit) \<times> manager \<times> 'w" where
  \<comment> \<open>The handler of \<^verbatim>\<open>POST /skip\<close>.\<close>
  "skip data =
     thn (lift (py_getitem data ''transition_id'')) (\<lambda>tid.
       modify (\<lambda>m. bnd (set_add tid (completed_transitions m)) (\<lambda>c.
                 Inr (m\<lparr>completed_transitions := c\<rparr>))))"

section \<open>Notions the claims are stated with\<close>

fun is_obj :: "json \<Rightarrow> bool" where
  "is_obj (JObj kvs) = True"
| "is_obj v = False"

definition item :: "json \<Rightarrow> string \<Rightarrow> json" where
  \<comment> \<open>The value under a key of a dict; \<^verbatim>\<open>None\<close> where there is none.\<close>
  "item v k = (case py_getitem v k of Inr x \<Rightarrow> x | Inl e \<Rightarrow> JNull)"

definition has_key :: "json \<Rightarrow> string \<Rightarrow> bool" where
  "has_key v k = (case py_getitem v k of Inr x \<Rightarrow> True | Inl e \<Rightarrow> False)"

text \<open>
  The comparison-group format: a group is a dict with the shared fields and a list of
  predictions, each a dict. A prediction carries an error marker when its \<^verbatim>\<open>error\<close>
  field holds something true. What the specification says the extraction yields,
  written with \<^const>\<open>map\<close> and \<^const>\<open>filter\<close>: for each group, for each prediction at
  index \<open>i\<close> without an error marker, one task.
\<close>

definition error_marker :: "json \<Rightarrow> bool" where
  "error_marker prediction = truthy (item prediction ''error'')"

definition predictions_of :: "json \<Rightarrow> json list" where
  "predictions_of comparison =
     (case item comparison ''predictions'' of JList ps \<Rightarrow> ps | _ \<Rightarrow> [])"

definition comparison_group :: "json \<Rightarrow> bool" where
  "comparison_group comparison =
     (has_key comparison ''transition_id'' \<and> has_key comparison ''action'' \<and>
      has_key comparison ''input_materials'' \<and> has_key comparison ''input_observations'' \<and>
      (case py_getitem comparison ''predictions'' of
         Inr (JList ps) \<Rightarrow> list_all is_obj ps
       | _ \<Rightarrow> False))"

definition task_of :: "'g pylib \<Rightarrow> json \<Rightarrow> nat \<Rightarrow> json \<Rightarrow> json" where
  "task_of L comparison i prediction =
     JObj [(''transition_id'',
              JStr (py_str L (item comparison ''transition_id'') @ ''_'' @ show_nat i)),
           (''original_transition_id'', item comparison ''transition_id''),
           (''prediction_index'', JInt (int i)),
           (''action'', item comparison ''action''),
           (''input_materials'', item comparison ''input_materials''),
           (''input_observations'', item comparison ''input_observations''),
           (''prediction'', prediction)]"

definition tasks_from :: "'g pylib \<Rightarrow> json \<Rightarrow> nat \<Rightarrow> json list \<Rightarrow> json list" where
  \<comment> \<open>The tasks of the predictions \<open>ps\<close>, which are numbered from \<open>i\<close>.\<close>
  "tasks_from L comparison i ps =
     map (\<lambda>(j, p). task_of L comparison j p)
       (filter (\<lambda>(j, p). \<not> error_marker p) (zip [i ..< i + length ps] ps))"

definition expected_tasks :: "'g pylib \<Rightarrow> json list \<Rightarrow> json list" where
  "expected_tasks L groups =
     concat (map (\<lambda>comparison. tasks_from L comparison 0 (predictions_of comparison)) groups)"

text \<open>
  The requests that change the manager. Flask answers a request whose handler raises
  with an error page and goes on with the same manager, so a request maps a state to a
  state whatever its outcome.
\<close>

datatype request = Validate json | Skip json

fun handle :: "'g pylib \<Rightarrow> request \<Rightarrow> manager \<times> 'g world \<Rightarrow> manager \<times> 'g world" where
  "handle L (Validate data) s = snd (validate L data s)"
| "handle L (Skip data) s = snd (skip data s)"

definition serve :: "'g pylib \<Rightarrow> request list \<Rightarrow> manager \<times> 'g world \<Rightarrow> manager \<times> 'g world" where
  "serve L requests s = foldl (\<lambda>s r. handle L r s) s requests"

definition stored_validations :: "'g world \<Rightarrow> string \<Rightarrow> json option" where
  \<comment> \<open>The judgment list a session file holds, when the file holds a document.\<close>
  "stored_validations w path =
     (case files w path of
        Some (Stored d) \<Rightarrow> Some (item d ''validations'')
      | _ \<Rightarrow> None)"

text \<open>
  For comparing two runs of a program: \<open>steps R Q p1 p2\<close> says that from states related
  by \<open>R\<close> the two programs end in states related by \<open>R\<close>, both with the same exception
  or with results related by \<open>Q\<close>. \<open>same_but p sd1 sd2\<close> relates two environments that
  differ only in the document the file \<open>p\<close> holds, \<open>sd1\<close> in one and \<open>sd2\<close> in the
  other; \<open>agree_but k\<close> says two documents have the same keys and values except at key
  \<open>k\<close>.
\<close>

definition same_but ::
  "string \<Rightarrow> (string \<times> json) list \<Rightarrow> (string \<times> json) list \<Rightarrow> 'g world \<Rightarrow> 'g world \<Rightarrow> bool" where
  "same_but p sd1 sd2 w1 w2 \<longleftrightarrow>
     faults w1 = faults w2 \<and> console w1 = console w2 \<and> clock w1 = clock w2 \<and> rng w1 = rng w2 \<and>
     files w1 p = Some (Stored (JObj sd1)) \<and> files w2 p = Some (Stored (JObj sd2)) \<and>
     (\<forall>q. q \<noteq> p \<longrightarrow> files w1 q = files w2 q)"

fun same_result :: "('a \<Rightarrow> 'a \<Rightarrow> bool) \<Rightarrow> error + 'a \<Rightarrow> error + 'a \<Rightarrow> bool" where
  "same_result Q (Inl e) (Inl e') = (e = e')"
| "same_result Q (Inr x) (Inr y) = Q x y"
| "same_result Q r r' = False"

definition steps ::
  "('s \<Rightarrow> 's \<Rightarrow> bool) \<Rightarrow> ('a \<Rightarrow> 'a \<Rightarrow> bool) \<Rightarrow> ('s \<Rightarrow> (error + 'a) \<times> 's) \<Rightarrow> ('s \<Rightarrow> (error + 'a) \<times> 's) \<Rightarrow> bool" where
  "steps R Q p1 p2 \<longleftrightarrow>
     (\<forall>s1 s2. R s1 s2 \<longrightarrow>
        R (snd (p1 s1)) (snd (p2 s2)) \<and> same_result Q (fst (p1 s1)) (fst (p2 s2)))"

definition agree_but :: "string \<Rightarrow> (string \<times> json) list \<Rightarrow> (string \<times> json) list \<Rightarrow> bool" where
  "agree_but k sd1 sd2 \<longleftrightarrow> (\<forall>k'. k' \<noteq> k \<longrightarrow> map_of sd1 k' = map_of sd2 k')"

text \<open>
  \<open>keeps P p\<close>: a property of the manager that holds before the method \<open>p\<close> holds
  after it, however \<open>p\<close> ends.
\<close>

definition keeps ::
  "(manager \<Rightarrow> bool) \<Rightarrow> (manager \<times> 'w \<Rightarrow> (error + 'a) \<times> manager \<times> 'w) \<Rightarrow> bool" where
  "keeps P p \<longleftrightarrow> (\<forall>s. P (fst s) \<longrightarrow> P (fst (snd (p s))))"

section \<open>Concrete inputs\<close>

text \<open>
  Values at which the theorems below are instantiated. \<open>plain_lib\<close> stands in for the
  library: its generator state is a number, a draw is the state modulo the bound.
\<close>

definition plain_lib :: "nat pylib" where
  "plain_lib =
     \<lparr> repr_of = (\<lambda>v. ''?''),
       seed_of = (\<lambda>v. case v of JInt i \<Rightarrow> nat \<bar>i\<bar> | _ \<Rightarrow> 0),
       randbelow = (\<lambda>g n. (g mod n, Suc (3 * g))),
       strftime = show_nat,
       isoformat = show_nat,
       joinpath = (\<lambda>d f. d @ ''/'' @ f),
       parent = (\<lambda>p. ''results'') \<rparr>"

definition water_table :: "(json \<times> json) list" where
  "water_table = [(JStr ''BC1'', JStr ''Water'')]"

definition transfer_parameters :: json where
  "transfer_parameters =
     JObj [(''source'', JStr ''BC1''),
           (''targets'', JList [JStr ''BC2'', JObj [(''well'', JStr ''BC1''), (''volume'', JInt 5)]])]"

definition demo_group :: json where
  \<comment> \<open>One group with four predictions, the second of which failed.\<close>
  "demo_group =
     JObj [(''transition_id'', JStr ''t1''),
           (''action'', JObj [(''name'', JStr ''transfer''), (''parameters'', transfer_parameters)]),
           (''input_materials'', JList [JObj [(''barcode'', JStr ''BC1''), (''name'', JStr ''Water'')]]),
           (''input_observations'', JList []),
           (''predictions'',
              JList [JObj [(''prediction'', JObj [(''new_materials'', JList [])])],
                     JObj [(''error'', JStr ''timeout'')],
                     JObj [(''error'', JNull), (''config'', JObj [(''model'', JStr ''m'')])],
                     JObj []])]"

definition demo_dataset :: json where
  "demo_dataset = JObj [(''comparisons'', JList [demo_group]), (''metadata'', JObj [(''run'', JInt 7)])]"

definition demo_world :: "nat world" where
  \<comment> \<open>A disk that holds the dataset; nothing fails.\<close>
  "demo_world =
     \<lparr> files = [''data.json'' \<mapsto> Stored demo_dataset,
                 ''bare.json'' \<mapsto> Stored (JObj [(''metadata'', JObj [(''run'', JInt 7)])])],
       faults = [],
       console = [],
       clock = 0,
       rng = 0 \<rparr>"

definition empty_manager :: manager where
  \<comment> \<open>The manager of a session over a dataset with no tasks.\<close>
  "empty_manager =
     \<lparr> data_file = ''bare.json'',
       results_dir = ''results'',
       session_name = JNull,
       random_seed = JInt 42,
       session_id = JStr ''0'',
       session_file = ''results/validation_session_0.json'',
       transitions = JList [],
       current_transitions = JList [],
       completed_transitions = [],
       session_validations = JList [],
       error_categories = default_error_categories,
       metadata = JObj [(''run'', JInt 7)],
       material_lookup = [] \<rparr>"

definition ghost_request :: json where
  \<comment> \<open>The body of a request that names a task no dataset has.\<close>
  "ghost_request = JObj [(''transition_id'', JStr ''ghost'')]"

definition demo_manager :: manager where
  \<comment> \<open>The manager \<^verbatim>\<open>ValidationManager('data.json', 'results', None, 42)\<close> builds in
      \<^const>\<open>demo_world\<close> (see \<open>init_demo\<close> below).\<close>
  "demo_manager =
     \<lparr> data_file = ''data.json'',
       results_dir = ''results'',
       session_name = JNull,
       random_seed = JInt 42,
       session_id = JStr ''0'',
       session_file = ''results/validation_session_0.json'',
       transitions = JList (expected_tasks plain_lib [demo_group]),
       current_transitions =
         JList (map (\<lambda>i. expected_tasks plain_lib [demo_group] ! i) [2, 1, 0]),
       completed_transitions = [],
       session_validations = JList [],
       error_categories = default_error_categories,
       metadata = JObj [(''run'', JInt 7)],
       material_lookup = water_table \<rparr>"

definition served_task :: json where
  \<comment> \<open>What \<^verbatim>\<open>get_next_transition\<close> returns first in that session.\<close>
  "served_task =
     JObj [(''transition_id'', JStr ''t1_3''),
           (''original_transition_id'', JStr ''t1''),
           (''prediction_index'', JInt 3),
           (''action'',
              JObj [(''name'', JStr ''transfer''),
                    (''parameters'',
                       JObj [(''source'', JStr ''Water''),
                             (''targets'',
                                JList [JStr ''BC2'',
                                       JObj [(''well'', JStr ''Water''), (''volume'', JInt 5)]])]),
                    (''parameters_display'',
                       JObj [(''source'', JStr ''Water''),
                             (''targets'',
                                JList [JStr ''BC2'',
                                       JObj [(''well'', JStr ''Water''), (''volume'', JInt 5)]])])]),
           (''input_materials'', JList [JObj [(''barcode'', JStr ''BC1''), (''name'', JStr ''Water'')]]),
           (''input_observations'', JList []),
           (''prediction'', JObj [])]"

definition demo_session_record :: "(string \<times> json) list" where
  \<comment> \<open>What \<^verbatim>\<open>_initialize_session_file\<close> wrote.\<close>
  "demo_session_record =
     [(''session_id'', JStr ''0''),
      (''session_name'', JNull),
      (''random_seed'', JInt 42),
      (''start_time'', JStr ''0''),
      (''source_data_file'', JStr ''data.json''),
      (''total_transitions'', JInt 3),
      (''metadata'', JObj [(''run'', JInt 7)]),
      (''error_categories'', default_error_categories),
      (''validations'', JList [])]"

definition demo_session_world :: "nat world" where
  \<comment> \<open>The environment after the session was created (see \<open>init_demo\<close> below).\<close>
  "demo_session_world =
     \<lparr> files = (files demo_world)
                 (''results/validation_session_0.json'' \<mapsto> Stored (JObj demo_session_record)),
       faults = [],
       console = [LoadedTransitions 3, BuiltLookup 1, UsingSeed (JInt 42), Randomized 3,
                  InitializedSession ''results/validation_session_0.json''],
       clock = 0,
       rng = 382 \<rparr>"

definition failing_world :: "nat world" where
  \<comment> \<open>The same, when the next read succeeds and the next opening for writing fails.\<close>
  "failing_world = demo_session_world\<lparr>faults := [False, True]\<rparr>"

definition judge_served_task ::
  "manager \<times> nat world \<Rightarrow> (error + unit) \<times> manager \<times> nat world" where
  \<comment> \<open>The reviewer finds the served task implausible.\<close>
  "judge_served_task =
     save_validation plain_lib (JStr ''t1_3'') (JBool False)
       (JList [JStr ''physical_impossible'']) (JStr []) (JStr []) JNull served_task"

definition demo_judgment :: json where
  "demo_judgment =
     JObj [(''transition_id'', JStr ''t1_3''),
           (''timestamp'', JStr ''0''),
           (''is_plausible'', JBool False),
           (''error_categories'', JList [JStr ''physical_impossible'']),
           (''custom_error'', JStr []),
           (''comments'', JStr []),
           (''confidence'', JNull),
           (''transition_data'', served_task),
           (''prediction_config'', JObj [])]"

definition after_failed_write :: "manager \<times> nat world" where
  \<comment> \<open>The manager and the environment after the write of that judgment failed.\<close>
  "after_failed_write =
     (demo_manager\<lparr>session_validations := JList [demo_judgment]\<rparr>,
      demo_session_world)"

definition judged_record :: "(string \<times> json) list" where
  \<comment> \<open>The session file after that judgment was saved: one judgment, and the count
      \<^verbatim>\<open>_update_session_file\<close> stored, which it takes before the id is added.\<close>
  "judged_record =
     [(''session_id'', JStr ''0''),
      (''session_name'', JNull),
      (''random_seed'', JInt 42),
      (''start_time'', JStr ''0''),
      (''source_data_file'', JStr ''data.json''),
      (''total_transitions'', JInt 3),
      (''metadata'', JObj [(''run'', JInt 7)]),
      (''error_categories'', default_error_categories),
      (''validations'', JList [demo_judgment]),
      (''last_updated'', JStr ''0''),
      (''completed_transitions'', JInt 0),
      (''progress_percentage'', JFloat 0)]"

definition judged_manager :: manager where
  "judged_manager =
     demo_manager\<lparr>completed_transitions := [JStr ''t1_3''],
                    session_validations := JList [demo_judgment]\<rparr>"

definition judged_world :: "nat world" where
  "judged_world =
     demo_session_world
       \<lparr>files := (files demo_session_world)
                   (''results/validation_session_0.json'' \<mapsto> Stored (JObj judged_record)),
        console := console demo_session_world @ [SavedImplausible (JStr ''t1_3'') 1]\<rparr>"

definition resumed_world :: "nat world" where
  \<comment> \<open>The environment after the session was resumed from that file.\<close>
  "resumed_world =
     judged_world
       \<lparr>console := console judged_world @
                     [LoadedTransitions 3, BuiltLookup 1, UsingSeed (JInt 42), Randomized 3,
                      ResumedFrom ''results/validation_session_0.json'', ResumeProgress 1 3]\<rparr>"

definition first_request :: json where
  \<comment> \<open>The body of the request that carries the judgment above.\<close>
  "first_request =
     JObj [(''transition_id'', JStr ''t1_3''),
           (''is_plausible'', JBool False),
           (''error_categories'', JList [JStr ''physical_impossible'']),
           (''transition_data'', served_task)]"

definition second_request :: json where
  \<comment> \<open>The next task is found plausible.\<close>
  "second_request = JObj [(''transition_id'', JStr ''t1_2''), (''is_plausible'', JBool True)]"

definition second_judgment :: json where
  "second_judgment =
     JObj [(''transition_id'', JStr ''t1_2''),
           (''timestamp'', JStr ''0''),
           (''is_plausible'', JBool True),
           (''error_categories'', JList []),
           (''custom_error'', JStr []),
           (''comments'', JStr []),
           (''confidence'', JNull),
           (''transition_data'', JNull),
           (''prediction_config'', JObj [])]"

definition twice_record :: "(string \<times> json) list" where
  \<comment> \<open>The session file after both judgments.\<close>
  "twice_record =
     [(''session_id'', JStr ''0''),
      (''session_name'', JNull),
      (''random_seed'', JInt 42),
      (''start_time'', JStr ''0''),
      (''source_data_file'', JStr ''data.json''),
      (''total_transitions'', JInt 3),
      (''metadata'', JObj [(''run'', JInt 7)]),
      (''error_categories'', default_error_categories),
      (''validations'', JList [demo_judgment, second_judgment]),
      (''last_updated'', JStr ''0''),
      (''completed_transitions'', JInt 1),
      (''progress_percentage'', JFloat (100 / 3))]"

definition twice_manager :: manager where
  "twice_manager =
     demo_manager\<lparr>completed_transitions := [JStr ''t1_3'', JStr ''t1_2''],
                    session_validations := JList [demo_judgment, second_judgment]\<rparr>"

definition twice_world :: "nat world" where
  "twice_world =
     judged_world
       \<lparr>files := (files judged_world)
                   (''results/validation_session_0.json'' \<mapsto> Stored (JObj twice_record)),
        console := console judged_world @ [SavedPlausible (JStr ''t1_2'')]\<rparr>"

definition resumed_twice_world :: "nat world" where
  "resumed_twice_world =
     twice_world
       \<lparr>console := console twice_world @
                     [LoadedTransitions 3, BuiltLookup 1, UsingSeed (JInt 42), Randomized 3,
                      ResumedFrom ''results/validation_session_0.json'', ResumeProgress 2 3]\<rparr>"

section \<open>Basic facts about the operations\<close>

lemma bnd_Inr [simp]: "bnd (Inr x) f = f x"
  by (simp add: bnd_def)

lemma bnd_Inl [simp]: "bnd (Inl e) f = Inl e"
  by (simp add: bnd_def)

lemma bnd_eq_Inr: "bnd r f = Inr y \<longleftrightarrow> (\<exists>x. r = Inr x \<and> f x = Inr y)"
  by (cases r) simp_all

lemma has_key_getitem: "has_key g k \<Longrightarrow> py_getitem g k = Inr (item g k)"
  by (auto simp: has_key_def item_def split: sum.splits)

lemma getitem_contains: "py_getitem d k = Inr v \<Longrightarrow> py_contains k d = Inr True"
  by (cases d) (auto split: option.splits)

lemma thn_lift_Inr [simp]: "thn (lift (Inr x)) f s = f x s"
  by (simp add: thn_def lift_def)

lemma thn_lift_Inl [simp]: "thn (lift (Inl e)) f s = (Inl e, s)"
  by (simp add: thn_def lift_def)

lemma key_eq_refl [simp]: "key_eq x x"
  by (simp add: key_eq_def split: option.splits)

lemma in_keys_append [simp]: "in_keys x (ys @ zs) \<longleftrightarrow> in_keys x ys \<or> in_keys x zs"
  by (induction ys) auto

lemma skip_run:
  "py_getitem data ''transition_id'' = Inr tid \<Longrightarrow>
   set_add tid (completed_transitions m) = Inr c \<Longrightarrow>
   skip data (m, w) = (Inr (), (m\<lparr>completed_transitions := c\<rparr>, w))"
  by (simp add: skip_def modify_def)

lemma map_of_dict_set [simp]:
  "map_of (dict_set k v d) k' = (if k' = k then Some v else map_of d k')"
  by (induction d) auto

lemma progress_percentage_validations [simp]:
  "progress_percentage (m\<lparr>session_validations := vs\<rparr>) = progress_percentage m"
  by (simp add: progress_percentage_def)

lemma get_next_transition_validations [simp]:
  "get_next_transition (m\<lparr>session_validations := vs\<rparr>) = get_next_transition m"
  by (simp add: get_next_transition_def cong: option.case_cong)

section \<open>Two runs side by side, and what a successful run tells\<close>

lemma steps_thn:
  assumes "steps R Q p1 p2" and "\<And>x y. Q x y \<Longrightarrow> steps R Q' (k1 x) (k2 y)"
  shows "steps R Q' (thn p1 k1) (thn p2 k2)"
  unfolding steps_def
proof (intro allI impI)
  fix s1 s2
  assume R: "R s1 s2"
  obtain r1 u1 where p1: "p1 s1 = (r1, u1)" by (cases "p1 s1")
  obtain r2 u2 where p2: "p2 s2 = (r2, u2)" by (cases "p2 s2")
  from assms(1) [unfolded steps_def, rule_format, OF R] p1 p2
  have u: "R u1 u2" and r: "same_result Q r1 r2"
    by simp_all
  show "R (snd (thn p1 k1 s1)) (snd (thn p2 k2 s2)) \<and>
        same_result Q' (fst (thn p1 k1 s1)) (fst (thn p2 k2 s2))"
  proof (cases r1)
    case (Inl e)
    with r have "r2 = Inl e" by (cases r2) simp_all
    with Inl p1 p2 u show ?thesis by (simp add: thn_def)
  next
    case (Inr x)
    with r obtain y where y: "r2 = Inr y" "Q x y"
      by (cases r2) simp_all
    from assms(2) [OF y(2), unfolded steps_def, rule_format, OF u]
    show ?thesis using Inr y p1 p2 by (simp add: thn_def)
  qed
qed

lemma steps_io_fault: "steps (same_but p sd1 sd2) (=) io_fault io_fault"
  by (auto simp: steps_def io_fault_def same_but_def split: list.splits)

lemma steps_say: "steps (same_but p sd1 sd2) (=) (say l) (say l)"
  by (auto simp: steps_def say_def same_but_def)

lemma steps_now: "steps (same_but p sd1 sd2) (=) now now"
  by (auto simp: steps_def now_def same_but_def)

lemma steps_seed_random: "steps (same_but p sd1 sd2) (=) (seed_random L a) (seed_random L a)"
  by (auto simp: steps_def seed_random_def same_but_def)

lemma steps_shuffle_copy: "steps (same_but p sd1 sd2) (=) (shuffle_copy L ts) (shuffle_copy L ts)"
  by (auto simp: steps_def shuffle_copy_def same_but_def split: json.splits prod.splits)

lemma steps_read_json:
  "steps (same_but p sd1 sd2) (\<lambda>a b. if q = p then a = JObj sd1 \<and> b = JObj sd2 else a = b)
     (read_json q) (read_json q)"
  unfolding steps_def
proof (intro allI impI)
  fix w1 w2 :: "'a world"
  assume R: "same_but p sd1 sd2 w1 w2"
  show "same_but p sd1 sd2 (snd (read_json q w1)) (snd (read_json q w2)) \<and>
        same_result (\<lambda>a b. if q = p then a = JObj sd1 \<and> b = JObj sd2 else a = b)
          (fst (read_json q w1)) (fst (read_json q w2))"
  proof (cases "q = p")
    case True
    with R show ?thesis
      by (auto simp: read_json_def thn_def io_fault_def same_but_def split: list.splits)
  next
    case False
    with R have "files w1 q = files w2 q"
      by (simp add: same_but_def)
    with R False show ?thesis
      by (auto simp: read_json_def thn_def io_fault_def same_but_def
          split: list.splits option.splits content.splits)
  qed
qed

lemma steps_thn_same:
  "steps R (=) p p \<Longrightarrow> (\<And>x. steps R Q (k x) (k x)) \<Longrightarrow> steps R Q (thn p k) (thn p k)"
  by (rule steps_thn [where Q = "(=)"]) simp_all

lemma steps_prod:
  "(\<And>a b. steps R Q (k a b) (k a b)) \<Longrightarrow> steps R Q (case_prod k x) (case_prod k x)"
  by (cases x) simp

lemma steps_lift_same: "steps R (=) (lift r) (lift r)"
  by (cases r) (auto simp: steps_def lift_def)

lemma steps_if:
  "steps R Q p p \<Longrightarrow> steps R Q q q \<Longrightarrow> steps R Q (if c then p else q) (if c then p else q)"
  by simp

lemmas steps_same =
  steps_thn_same steps_prod steps_lift_same steps_if steps_io_fault steps_say steps_now
  steps_seed_random steps_shuffle_copy

lemma steps_build_material_lookup:
  "steps (same_but p sd1 sd2) (=) (build_material_lookup ts) (build_material_lookup ts)"
  unfolding build_material_lookup_def by (intro steps_same)

lemma steps_randomize_transitions:
  "steps (same_but p sd1 sd2) (=) (randomize_transitions L seed ts) (randomize_transitions L seed ts)"
  unfolding randomize_transitions_def by (intro steps_same)

lemma agree_but_ops:
  assumes "agree_but k sd1 sd2" and "k' \<noteq> k"
  shows "py_get (JObj sd1) k' d = py_get (JObj sd2) k' d"
    and "py_getitem (JObj sd1) k' = py_getitem (JObj sd2) k'"
    and "py_contains k' (JObj sd1) = py_contains k' (JObj sd2)"
  using assms by (simp_all add: agree_but_def)

lemma agree_but_extract:
  assumes "agree_but ''completed_transitions'' sd1 sd2"
  shows "extract_transitions L (JObj sd1) = extract_transitions L (JObj sd2)"
proof -
  have "map_of sd1 ''comparisons'' = map_of sd2 ''comparisons''"
    and "map_of sd1 ''transitions'' = map_of sd2 ''transitions''"
    using assms by (simp_all add: agree_but_def)
  then show ?thesis
    by (simp add: extract_transitions_def)
qed

lemma steps_load_data:
  assumes "agree_but ''completed_transitions'' sd1 sd2"
  shows "steps (same_but p sd1 sd2) (=) (load_data L data) (load_data L data)"
  unfolding load_data_def
proof (rule steps_thn [OF steps_read_json])
  fix x y
  assume "if data = p then x = JObj sd1 \<and> y = JObj sd2 else x = y"
  then have "extract_transitions L x = extract_transitions L y"
    and "py_get x ''metadata'' (JObj []) = py_get y ''metadata'' (JObj [])"
    using agree_but_extract [OF assms, of L] agree_but_ops(1) [OF assms, of "''metadata''"]
    by (auto split: if_splits)
  then show "steps (same_but p sd1 sd2) (=)
      (\<lambda>s. thn (lift (extract_transitions L x))
         (\<lambda>ts. thn (lift (py_get x ''metadata'' (JObj [])))
            (\<lambda>md. thn (lift (py_len ts))
               (\<lambda>n. thn (say (LoadedTransitions n)) (\<lambda>_. lift (Inr (ts, md)))))) s)
      (\<lambda>s. thn (lift (extract_transitions L y))
         (\<lambda>ts. thn (lift (py_get y ''metadata'' (JObj [])))
            (\<lambda>md. thn (lift (py_len ts))
               (\<lambda>n. thn (say (LoadedTransitions n)) (\<lambda>_. lift (Inr (ts, md)))))) s)"
    by (simp only:) (intro steps_same)
qed

lemma same_result_eq [simp]: "same_result (=) r r' \<longleftrightarrow> r = r'"
  by (cases r; cases r') auto

lemma steps_source_data_file:
  "steps (same_but p sd1 sd2) (=) (source_data_file sd given) (source_data_file sd given)"
  unfolding steps_def
proof (intro allI impI)
  fix w1 w2 :: "'a world"
  assume R: "same_but p sd1 sd2 w1 w2"
  then have "path_exists q w1 = path_exists q w2" for q
    by (cases "q = p") (simp_all add: path_exists_def same_but_def)
  with R show "same_but p sd1 sd2 (snd (source_data_file sd given w1))
       (snd (source_data_file sd given w2)) \<and>
      same_result (=) (fst (source_data_file sd given w1)) (fst (source_data_file sd given w2))"
    by (auto simp: source_data_file_def bnd_def split: option.splits sum.splits json.splits)
qed

lemma steps_restore_session:
  assumes "agree_but ''completed_transitions'' sd1 sd2"
  shows "steps (same_but p sd1 sd2) (=) (restore_session L p given sd) (restore_session L p given sd)"
  unfolding restore_session_def
  by (intro steps_same steps_source_data_file steps_load_data [OF assms]
      steps_build_material_lookup steps_randomize_transitions)

lemma restore_session_agree:
  assumes "agree_but ''completed_transitions'' sd1 sd2"
  shows "restore_session L p given (JObj sd1) = restore_session L p given (JObj sd2)"
proof -
  have same: "map_of sd1 k = map_of sd2 k" if "k \<noteq> ''completed_transitions''" for k
    using assms that by (simp add: agree_but_def)
  have source: "source_data_file (JObj sd1) given = source_data_file (JObj sd2) given"
    by (intro ext) (simp add: source_data_file_def same split: option.splits)
  have gets: "py_get (JObj sd1) ''session_name'' d = py_get (JObj sd2) ''session_name'' d"
    "py_get (JObj sd1) ''random_seed'' d = py_get (JObj sd2) ''random_seed'' d"
    "py_getitem (JObj sd1) ''session_id'' = py_getitem (JObj sd2) ''session_id''"
    "py_get (JObj sd1) ''error_categories'' d = py_get (JObj sd2) ''error_categories'' d"
    "py_get (JObj sd1) ''validations'' d = py_get (JObj sd2) ''validations'' d" for d
    by (simp_all add: same)
  show ?thesis
    unfolding restore_session_def source gets by (rule refl)
qed

lemma steps_resume:
  assumes "agree_but ''completed_transitions'' sd1 sd2"
  shows "steps (same_but p sd1 sd2) (=) (resume_from_session L p given) (resume_from_session L p given)"
  unfolding resume_from_session_def
proof (rule steps_thn_same)
  show "steps (same_but p sd1 sd2) (=)
      (\<lambda>w. (if path_exists p w then Inr () else Inl FileNotFoundError, w))
      (\<lambda>w. (if path_exists p w then Inr () else Inl FileNotFoundError, w))"
    by (simp add: steps_def path_exists_def same_but_def)
next
  fix x :: unit
  show "steps (same_but p sd1 sd2) (=)
      (thn (read_json p) (restore_session L p given))
      (thn (read_json p) (restore_session L p given))"
  proof (rule steps_thn [OF steps_read_json])
    fix a b
    assume "if p = p then a = JObj sd1 \<and> b = JObj sd2 else a = b"
    then have "restore_session L p given a = restore_session L p given b"
      using restore_session_agree [OF assms] by simp
    then show "steps (same_but p sd1 sd2) (=) (restore_session L p given a)
        (restore_session L p given b)"
      using steps_restore_session [OF assms] by simp
  qed
qed

lemma thn_eq_Inr:
  "thn p f s = (Inr y, s') \<longleftrightarrow> (\<exists>x s1. p s = (Inr x, s1) \<and> f x s1 = (Inr y, s'))"
  by (auto simp: thn_def split: prod.splits sum.splits)

lemma lift_eq [simp]: "lift r s = (r', s') \<longleftrightarrow> r = r' \<and> s = s'"
  by (auto simp: lift_def)

lemma read_json_Inr:
  "read_json p w = (Inr d, w1) \<Longrightarrow>
   files w p = Some (Stored d) \<and> files w1 = files w \<and> console w1 = console w \<and>
   clock w1 = clock w \<and> rng w1 = rng w"
  by (auto simp: read_json_def thn_def io_fault_def
      split: list.splits if_splits option.splits content.splits)

lemma resume_from_session_Inr:
  "resume_from_session L p given w = (Inr m, w') \<Longrightarrow>
   \<exists>sd w1. read_json p w = (Inr sd, w1) \<and> restore_session L p given sd w1 = (Inr m, w')"
  by (auto simp: resume_from_session_def thn_eq_Inr split: if_splits)

lemma restore_session_Inr:
  assumes "restore_session L p given sd w = (Inr m, w')"
  shows "\<exists>seed vals w1 w2 w3 w4.
      py_get sd ''random_seed'' (JInt 42) = Inr seed \<and>
      py_get sd ''validations'' (JList []) = Inr vals \<and>
      bnd (py_iter vals) (restore_completed []) = Inr (completed_transitions m) \<and>
      random_seed m = seed \<and> session_validations m = vals \<and> session_file m = p \<and>
      source_data_file sd given w = (Inr (data_file m), w1) \<and>
      load_data L (data_file m) w1 = (Inr (transitions m, metadata m), w2) \<and>
      build_material_lookup (transitions m) w2 = (Inr (material_lookup m), w3) \<and>
      randomize_transitions L seed (transitions m) w3 = (Inr (current_transitions m), w4) \<and>
      (\<exists>n. py_len (current_transitions m) = Inr n)"
  using assms unfolding restore_session_def
  by (auto simp: thn_eq_Inr say_def)

section \<open>The demo session, step by step\<close>

text \<open>
  The model run on the concrete inputs: creating the session over \<^const>\<open>demo_dataset\<close>
  with seed 42, then saving the judgment of the task served first.
\<close>

lemma shuffle_three:
  "shuffle rb g [a, b, c] =
     (case rb g 3 of (j, g1) \<Rightarrow>
        (case rb g1 2 of (k, g2) \<Rightarrow>
           (([a, b, c][2 := [a, b, c] ! j, j := c])
              [1 := ([a, b, c][2 := [a, b, c] ! j, j := c]) ! k,
               k := ([a, b, c][2 := [a, b, c] ! j, j := c]) ! 1], g2)))"
  by (simp add: shuffle_def numeral_2_eq_2 numeral_3_eq_3 split: prod.splits)

lemma shuffle_demo:
  "shuffle (\<lambda>g n. (g mod n, Suc (3 * g))) 42 [a, b, c] = ([c, b, a], 382)"
  by (simp add: shuffle_three)

lemma show_nat_digit: "n < 10 \<Longrightarrow> show_nat n = [''0123456789'' ! n]"
  by (simp add: show_nat.simps)

lemma init_demo:
  "init plain_lib ''data.json'' ''results'' None (Some 42) demo_world =
     (Inr demo_manager, demo_session_world)"
  by (simp add: init_def thn_def io_fault_def now_def load_data_def read_json_def demo_world_def
      demo_dataset_def demo_group_def extract_transitions_def lift_def say_def show_nat_digit
      make_transition_def build_material_lookup_def lookup_of_transition_def add_material_def
      tbl_setitem_def randomize_transitions_def seed_random_def shuffle_copy_def shuffle_demo
      plain_lib_def initialize_session_file_def write_json_def demo_manager_def
      demo_session_world_def demo_session_record_def session_label_def expected_tasks_def
      tasks_from_def task_of_def predictions_of_def item_def error_marker_def water_table_def
      key_eq_def upt_conv_Cons)

lemma judge_demo:
  "judge_served_task (demo_manager, demo_session_world) = (Inr (), (judged_manager, judged_world))"
  by (simp add: judge_served_task_def save_validation_def thn_def with_manager_def now_def
      lift_def modify_def validation_result_def served_task_def demo_judgment_def
      demo_manager_def demo_session_world_def judged_manager_def judged_world_def
      judged_record_def update_session_file_def read_json_def write_json_def io_fault_def
      progress_percentage_def plain_lib_def show_nat_digit set_add_def say_def
      demo_session_record_def)

section \<open>Name resolution on nested values\<close>

lemma map_of_map_values:
  "map_of (map (\<lambda>(k, v). (k, f v)) kvs) k = map_option f (map_of kvs k)"
  by (induction kvs) auto

lemma resolve_without_known:
  "\<not> has_known tbl v \<Longrightarrow> resolve_barcode_to_name tbl v = v"
proof (induction tbl v rule: resolve_barcode_to_name.induct)
  case (2 tbl xs)
  then show ?case by (simp add: map_idI)
next
  case (3 tbl kvs)
  have "map (\<lambda>(k, v). (k, resolve_barcode_to_name tbl v)) kvs = map (\<lambda>kv. kv) kvs"
    using 3 by (intro map_cong) (auto split: prod.splits)
  then show ?case by simp
qed auto

lemma subvalue_resolve:
  "subvalue v p = Some u \<Longrightarrow>
   subvalue (resolve_barcode_to_name tbl v) p = Some (resolve_barcode_to_name tbl u)"
proof (induction v p rule: subvalue.induct)
  case (2 xs i p)
  then show ?case by (auto split: if_splits)
next
  case (3 kvs k p)
  then show ?case by (auto simp: map_of_map_values split: option.splits)
qed auto

text \<open>
  Claim C8. A value that holds no string known to the table is returned unchanged. In
  any value, at every position (however deep below lists and dicts): a known string is
  replaced by its name, an unknown string and every other scalar stay, a list keeps
  its length and a dict keeps its keys in their order.
\<close>

theorem resolve_keeps_structure:
  "(\<not> has_known tbl v \<longrightarrow> resolve_barcode_to_name tbl v = v) \<and>
   (\<forall>p.
      (\<forall>s n. subvalue v p = Some (JStr s) \<and> tbl_get tbl (JStr s) = Some n \<longrightarrow>
         subvalue (resolve_barcode_to_name tbl v) p = Some n) \<and>
      (\<forall>s. subvalue v p = Some (JStr s) \<and> tbl_get tbl (JStr s) = None \<longrightarrow>
         subvalue (resolve_barcode_to_name tbl v) p = Some (JStr s)) \<and>
      (\<forall>u. subvalue v p = Some u \<and> is_plain_scalar u \<longrightarrow>
         subvalue (resolve_barcode_to_name tbl v) p = Some u) \<and>
      (\<forall>xs. subvalue v p = Some (JList xs) \<longrightarrow>
         (\<exists>ys. subvalue (resolve_barcode_to_name tbl v) p = Some (JList ys) \<and>
               length ys = length xs)) \<and>
      (\<forall>kvs. subvalue v p = Some (JObj kvs) \<longrightarrow>
         (\<exists>kvs'. subvalue (resolve_barcode_to_name tbl v) p = Some (JObj kvs') \<and>
               map fst kvs' = map fst kvs)))"
proof (intro conjI allI impI)
  assume "\<not> has_known tbl v"
  then show "resolve_barcode_to_name tbl v = v" by (rule resolve_without_known)
next
  fix p s n
  assume "subvalue v p = Some (JStr s) \<and> tbl_get tbl (JStr s) = Some n"
  then show "subvalue (resolve_barcode_to_name tbl v) p = Some n"
    using subvalue_resolve [of v p "JStr s" tbl] by simp
next
  fix p s
  assume "subvalue v p = Some (JStr s) \<and> tbl_get tbl (JStr s) = None"
  then show "subvalue (resolve_barcode_to_name tbl v) p = Some (JStr s)"
    using subvalue_resolve [of v p "JStr s" tbl] by simp
next
  fix p u
  assume "subvalue v p = Some u \<and> is_plain_scalar u"
  then show "subvalue (resolve_barcode_to_name tbl v) p = Some u"
    using subvalue_resolve [of v p u tbl] by (cases u) simp_all
next
  fix p xs
  assume "subvalue v p = Some (JList xs)"
  then show "\<exists>ys. subvalue (resolve_barcode_to_name tbl v) p = Some (JList ys) \<and>
               length ys = length xs"
    using subvalue_resolve [of v p "JList xs" tbl] by simp
next
  fix p kvs
  assume "subvalue v p = Some (JObj kvs)"
  then have "subvalue (resolve_barcode_to_name tbl v) p =
      Some (JObj (map (\<lambda>(k, v). (k, resolve_barcode_to_name tbl v)) kvs))"
    using subvalue_resolve [of v p "JObj kvs" tbl] by simp
  moreover have "map fst (map (\<lambda>(k, v). (k, resolve_barcode_to_name tbl v)) kvs) = map fst kvs"
    by (induction kvs) auto
  ultimately show "\<exists>kvs'. subvalue (resolve_barcode_to_name tbl v) p = Some (JObj kvs') \<and>
               map fst kvs' = map fst kvs"
    by blast
qed

theorem resolve_keeps_structure_witness:
  "resolve_barcode_to_name water_table (JList [JStr ''BC7'', JInt 2]) = JList [JStr ''BC7'', JInt 2] \<and>
   subvalue (resolve_barcode_to_name water_table transfer_parameters)
     [Key ''targets'', Idx 1, Key ''well''] = Some (JStr ''Water'') \<and>
   subvalue (resolve_barcode_to_name water_table transfer_parameters)
     [Key ''targets'', Idx 0] = Some (JStr ''BC2'') \<and>
   subvalue (resolve_barcode_to_name water_table transfer_parameters)
     [Key ''targets'', Idx 1, Key ''volume''] = Some (JInt 5)"
proof -
  have unknown: "\<not> has_known water_table (JList [JStr ''BC7'', JInt 2])"
    by (simp add: water_table_def key_eq_def)
  have known: "subvalue transfer_parameters [Key ''targets'', Idx 1, Key ''well''] = Some (JStr ''BC1'')
      \<and> tbl_get water_table (JStr ''BC1'') = Some (JStr ''Water'')"
    by (simp add: transfer_parameters_def water_table_def key_eq_def)
  have other: "subvalue transfer_parameters [Key ''targets'', Idx 0] = Some (JStr ''BC2'')
      \<and> tbl_get water_table (JStr ''BC2'') = None"
    by (simp add: transfer_parameters_def water_table_def key_eq_def)
  have scalar: "subvalue transfer_parameters [Key ''targets'', Idx 1, Key ''volume''] = Some (JInt 5)
      \<and> is_plain_scalar (JInt 5)"
    by (simp add: transfer_parameters_def)
  show ?thesis
    using resolve_keeps_structure [of water_table "JList [JStr ''BC7'', JInt 2]"]
      resolve_keeps_structure [of water_table transfer_parameters]
      unknown known other scalar
    by blast
qed

section \<open>Extraction\<close>

lemma make_transition_group:
  "comparison_group g \<Longrightarrow> make_transition L g i p = Inr (task_of L g i p)"
  by (simp add: comparison_group_def make_transition_def task_of_def has_key_getitem)

lemma is_obj_get_error:
  "is_obj p \<Longrightarrow> py_get p ''error'' JNull = Inr (item p ''error'')"
  by (cases p) (auto simp: item_def split: option.splits)

lemma tasks_from_Cons:
  "tasks_from L g i (p # ps) =
     (if error_marker p then [] else [task_of L g i p]) @ tasks_from L g (Suc i) ps"
proof -
  have "[i ..< i + length (p # ps)] = i # [Suc i ..< Suc i + length ps]"
    by (simp add: upt_rec)
  then show ?thesis by (simp add: tasks_from_def)
qed

lemma load_predictions_group:
  "comparison_group g \<Longrightarrow> list_all is_obj ps \<Longrightarrow>
   load_predictions L g i ps acc = Inr (acc @ tasks_from L g i ps)"
proof (induction ps arbitrary: i acc)
  case Nil
  then show ?case by (simp add: tasks_from_def)
next
  case (Cons p ps)
  then show ?case
    by (simp add: is_obj_get_error make_transition_group tasks_from_Cons error_marker_def)
qed

lemma comparison_group_predictions:
  "comparison_group g \<Longrightarrow>
   py_getitem g ''predictions'' = Inr (JList (predictions_of g)) \<and>
   list_all is_obj (predictions_of g)"
  by (auto simp: comparison_group_def predictions_of_def item_def split: sum.splits json.splits)

lemma load_comparisons_groups:
  "list_all comparison_group gs \<Longrightarrow>
   load_comparisons L gs acc = Inr (acc @ expected_tasks L gs)"
proof (induction gs arbitrary: acc)
  case Nil
  then show ?case by (simp add: expected_tasks_def)
next
  case (Cons g gs)
  then show ?case
    by (simp add: comparison_group_predictions load_predictions_group expected_tasks_def)
qed

lemma length_tasks_from:
  "length (tasks_from L g i ps) = length (filter (\<lambda>p. \<not> error_marker p) ps)"
  by (induction ps arbitrary: i) (simp_all add: tasks_from_Cons, simp add: tasks_from_def)

lemma tasks_from_origin:
  "t \<in> set (tasks_from L g i ps) \<Longrightarrow>
   \<exists>j. j < length ps \<and> \<not> error_marker (ps ! j) \<and> t = task_of L g (i + j) (ps ! j)"
proof (induction ps arbitrary: i)
  case Nil
  then show ?case by (simp add: tasks_from_def)
next
  case (Cons q qs)
  show ?case
  proof (cases "t \<in> set (tasks_from L g (Suc i) qs)")
    case True
    from Cons.IH [OF True] obtain j where
      "j < length qs" "\<not> error_marker (qs ! j)" "t = task_of L g (Suc i + j) (qs ! j)"
      by blast
    then have "Suc j < length (q # qs) \<and> \<not> error_marker ((q # qs) ! Suc j) \<and>
        t = task_of L g (i + Suc j) ((q # qs) ! Suc j)"
      by simp
    then show ?thesis by blast
  next
    case False
    with Cons.prems have "\<not> error_marker q \<and> t = task_of L g i q"
      by (auto simp: tasks_from_Cons split: if_splits)
    then have "0 < length (q # qs) \<and> \<not> error_marker ((q # qs) ! 0) \<and>
        t = task_of L g (i + 0) ((q # qs) ! 0)"
      by simp
    then show ?thesis by blast
  qed
qed

text \<open>
  Claim C3. For a dataset in the comparison-group format, the extraction returns the
  tasks the specification lists, in its order: one per prediction without an error
  marker, so as many as there are such predictions, and each task is the one built from
  a group, an index into its predictions and the prediction there, which carries no
  error marker (\<^const>\<open>task_of\<close> gives the fields: the id is the group's id, an
  underscore and the index; the group's id, action and inputs; the prediction).
\<close>

theorem extraction_of_comparison_groups:
  assumes "py_getitem data ''comparisons'' = Inr (JList groups)"
    and "list_all comparison_group groups"
  shows "extract_transitions L data = Inr (JList (expected_tasks L groups)) \<and>
         length (expected_tasks L groups) =
           sum_list (map (\<lambda>g. length (filter (\<lambda>p. \<not> error_marker p) (predictions_of g))) groups) \<and>
         (\<forall>t \<in> set (expected_tasks L groups).
            \<exists>g \<in> set groups. \<exists>i < length (predictions_of g).
              \<not> error_marker (predictions_of g ! i) \<and> t = task_of L g i (predictions_of g ! i))"
proof (intro conjI ballI)
  show "extract_transitions L data = Inr (JList (expected_tasks L groups))"
    using assms by (simp add: extract_transitions_def getitem_contains load_comparisons_groups)
next
  show "length (expected_tasks L groups) =
      sum_list (map (\<lambda>g. length (filter (\<lambda>p. \<not> error_marker p) (predictions_of g))) groups)"
    by (simp add: expected_tasks_def length_concat comp_def length_tasks_from)
next
  fix t
  assume "t \<in> set (expected_tasks L groups)"
  then obtain g where g: "g \<in> set groups" "t \<in> set (tasks_from L g 0 (predictions_of g))"
    by (auto simp: expected_tasks_def)
  from tasks_from_origin [OF g(2)] obtain j where
    "j < length (predictions_of g)" "\<not> error_marker (predictions_of g ! j)"
    "t = task_of L g j (predictions_of g ! j)"
    by auto
  with g(1) show "\<exists>g \<in> set groups. \<exists>i < length (predictions_of g).
      \<not> error_marker (predictions_of g ! i) \<and> t = task_of L g i (predictions_of g ! i)"
    by blast
qed

theorem extraction_of_comparison_groups_witness:
  "extract_transitions plain_lib demo_dataset = Inr (JList (expected_tasks plain_lib [demo_group])) \<and>
   length (expected_tasks plain_lib [demo_group]) = 3 \<and>
   map (\<lambda>t. item t ''transition_id'') (expected_tasks plain_lib [demo_group]) =
     [JStr ''t1_0'', JStr ''t1_2'', JStr ''t1_3'']"
proof -
  have format: "py_getitem demo_dataset ''comparisons'' = Inr (JList [demo_group])"
    "list_all comparison_group [demo_group]"
    by code_simp+
  have count: "sum_list (map (\<lambda>g. length (filter (\<lambda>p. \<not> error_marker p) (predictions_of g)))
      [demo_group]) = 3"
    by code_simp
  have ids: "map (\<lambda>t. item t ''transition_id'') (expected_tasks plain_lib [demo_group]) =
      [JStr ''t1_0'', JStr ''t1_2'', JStr ''t1_3'']"
    by code_simp
  show ?thesis
    using extraction_of_comparison_groups [OF format, of plain_lib] count ids
    by simp
qed

section \<open>A dataset of neither shape\<close>

text \<open>
  Claim C6, as the code has it. \<^verbatim>\<open>_load_data\<close> knows no format error: when the key
  \<^verbatim>\<open>comparisons\<close> is missing it takes \<^verbatim>\<open>data.get('transitions', [])\<close>, so a dict with
  neither key yields the empty task list and loading goes on. Only a dataset that is
  not a dict makes the extraction fail, with Python's \<^verbatim>\<open>TypeError\<close> or
  \<^verbatim>\<open>AttributeError\<close>.
\<close>

theorem extraction_of_neither_shape:
  "(is_obj data \<and> \<not> has_key data ''comparisons'' \<and> \<not> has_key data ''transitions'' \<longrightarrow>
      extract_transitions L data = Inr (JList [])) \<and>
   (\<not> is_obj data \<longrightarrow>
      extract_transitions L data = Inl TypeError \<or> extract_transitions L data = Inl AttributeError)"
proof (intro conjI impI)
  assume "is_obj data \<and> \<not> has_key data ''comparisons'' \<and> \<not> has_key data ''transitions''"
  then show "extract_transitions L data = Inr (JList [])"
    by (cases data) (auto simp: extract_transitions_def has_key_def split: option.splits)
next
  assume "\<not> is_obj data"
  then show "extract_transitions L data = Inl TypeError \<or>
      extract_transitions L data = Inl AttributeError"
    by (cases data) (auto simp: extract_transitions_def)
qed

theorem extraction_of_neither_shape_witness:
  "extract_transitions plain_lib (JObj [(''metadata'', JObj [(''run'', JInt 7)])]) = Inr (JList []) \<and>
   (extract_transitions plain_lib (JList [JInt 1]) = Inl TypeError \<or>
    extract_transitions plain_lib (JList [JInt 1]) = Inl AttributeError)"
proof -
  have neither: "is_obj (JObj [(''metadata'', JObj [(''run'', JInt 7)])]) \<and>
      \<not> has_key (JObj [(''metadata'', JObj [(''run'', JInt 7)])]) ''comparisons'' \<and>
      \<not> has_key (JObj [(''metadata'', JObj [(''run'', JInt 7)])]) ''transitions''"
    by (simp add: has_key_def)
  have no_dict: "\<not> is_obj (JList [JInt 1])"
    by simp
  show ?thesis
    using extraction_of_neither_shape [of "JObj [(''metadata'', JObj [(''run'', JInt 7)])]" plain_lib]
      extraction_of_neither_shape [of "JList [JInt 1]" plain_lib] neither no_dict
    by blast
qed

text \<open>
  Claim C6 as stated fails: loading the file \<^verbatim>\<open>bare.json\<close>, which holds only
  \<^verbatim>\<open>metadata\<close>, succeeds with no task.
\<close>

theorem load_of_neither_shape_succeeds:
  "fst (load_data plain_lib ''bare.json'' demo_world) = Inr (JList [], JObj [(''run'', JInt 7)])"
  by code_simp

section \<open>The order\<close>

lemma shuffle_from_mset:
  "\<forall>g n. 0 < n \<longrightarrow> fst (rb g n) < n \<Longrightarrow> i < length xs \<Longrightarrow>
   mset (fst (shuffle_from rb i g xs)) = mset xs"
proof (induction i arbitrary: g xs)
  case 0
  then show ?case by simp
next
  case (Suc i)
  obtain j g' where draw: "rb g (Suc (Suc i)) = (j, g')"
    by (cases "rb g (Suc (Suc i))")
  have "fst (rb g (Suc (Suc i))) < Suc (Suc i)"
    using Suc.prems(1) by simp
  with draw Suc.prems(2) have j: "j < length xs"
    by simp
  let ?ys = "xs[Suc i := xs ! j, j := xs ! Suc i]"
  have "mset ?ys = mset xs"
    using j Suc.prems(2) by (simp add: mset_swap)
  moreover have "mset (fst (shuffle_from rb i g' ?ys)) = mset ?ys"
    using Suc.prems by (intro Suc.IH) simp_all
  ultimately show ?case
    using draw by simp
qed

lemma shuffle_mset:
  "\<forall>g n. 0 < n \<longrightarrow> fst (rb g n) < n \<Longrightarrow> mset (fst (shuffle rb g xs)) = mset xs"
  by (cases xs) (simp_all add: shuffle_def shuffle_from_mset)

lemma randomize_seeded:
  "seed \<noteq> JNull \<Longrightarrow> hashable seed \<Longrightarrow>
   fst (randomize_transitions L seed (JList T) w) =
     Inr (JList (fst (shuffle (randbelow L) (seed_of L seed) T)))"
  by (simp add: randomize_transitions_def thn_def seed_random_def say_def shuffle_copy_def lift_def
      split: prod.splits)

text \<open>
  Claim C2. With a seed, the order \<^verbatim>\<open>_randomize_transitions\<close> produces from a task list
  is the same whatever the state of the program and of the generator before the call,
  and it is a permutation of the task list, so the ids are the same multiset. The
  library is taken to keep its contract: a draw for a bound is below the bound.
\<close>

theorem seeded_order_deterministic_permutation:
  assumes "\<forall>g n. 0 < n \<longrightarrow> fst (randbelow L g n) < n"
    and "seed \<noteq> JNull" and "hashable seed"
  shows "(\<forall>w w'. fst (randomize_transitions L seed (JList T) w) =
                 fst (randomize_transitions L seed (JList T) w')) \<and>
         (\<exists>order. (\<forall>w. fst (randomize_transitions L seed (JList T) w) = Inr (JList order)) \<and>
            mset order = mset T \<and>
            mset (map (\<lambda>t. item t ''transition_id'') order) =
              mset (map (\<lambda>t. item t ''transition_id'') T))"
proof -
  let ?order = "fst (shuffle (randbelow L) (seed_of L seed) T)"
  have run: "fst (randomize_transitions L seed (JList T) w) = Inr (JList ?order)" for w :: "'a world"
    using assms(2,3) by (rule randomize_seeded)
  have perm: "mset ?order = mset T"
    using assms(1) by (rule shuffle_mset)
  then have "image_mset (\<lambda>t. item t ''transition_id'') (mset ?order) =
      image_mset (\<lambda>t. item t ''transition_id'') (mset T)"
    by simp
  then have ids: "mset (map (\<lambda>t. item t ''transition_id'') ?order) =
      mset (map (\<lambda>t. item t ''transition_id'') T)"
    by simp
  from run perm ids show ?thesis
    by auto
qed

theorem seeded_order_deterministic_permutation_witness:
  "fst (randomize_transitions plain_lib (JInt 42) (JList (expected_tasks plain_lib [demo_group]))
          (demo_world\<lparr>rng := 5\<rparr>)) =
   fst (randomize_transitions plain_lib (JInt 42) (JList (expected_tasks plain_lib [demo_group]))
          (demo_world\<lparr>rng := 99, clock := 3\<rparr>)) \<and>
   (\<exists>order. fst (randomize_transitions plain_lib (JInt 42)
                   (JList (expected_tasks plain_lib [demo_group])) demo_world) = Inr (JList order) \<and>
      mset order = mset (expected_tasks plain_lib [demo_group]))"
proof -
  have contract: "\<forall>g n. 0 < n \<longrightarrow> fst (randbelow plain_lib g n) < n"
    by (simp add: plain_lib_def)
  have seed: "JInt 42 \<noteq> JNull" "hashable (JInt 42)"
    by simp_all
  show ?thesis
    using seeded_order_deterministic_permutation
      [OF contract seed, of "expected_tasks plain_lib [demo_group]"]
    by blast
qed

section \<open>Skipping\<close>

text \<open>
  Claim C9. Skipping a task whose id is already in \<^verbatim>\<open>completed_transitions\<close> changes
  nothing: the handler returns normally, the set is the same and \<^verbatim>\<open>get_progress\<close>
  returns what it returned before.
\<close>

theorem skip_completed_keeps_progress:
  assumes "py_getitem data ''transition_id'' = Inr tid"
    and "set_member tid (completed_transitions m) = Inr True"
  shows "\<exists>m'. skip data (m, w) = (Inr (), (m', w)) \<and>
           completed_transitions m' = completed_transitions m \<and>
           get_progress m' = get_progress m"
proof -
  from assms(2) have "set_add tid (completed_transitions m) = Inr (completed_transitions m)"
    by (auto simp: set_member_def set_add_def split: if_splits)
  with assms(1) have "skip data (m, w) = (Inr (), (m, w))"
    by (simp add: skip_run)
  then show ?thesis by blast
qed

theorem skip_completed_keeps_progress_witness:
  "get_progress (fst (snd (skip ghost_request
      (empty_manager\<lparr>completed_transitions := [JStr ''ghost'']\<rparr>, demo_world)))) =
   Inr \<lparr> completed = 1, total = 0, remaining = - 1 \<rparr>"
proof -
  let ?m = "empty_manager\<lparr>completed_transitions := [JStr ''ghost'']\<rparr>"
  have request: "py_getitem ghost_request ''transition_id'' = Inr (JStr ''ghost'')"
    by (simp add: ghost_request_def)
  have seen: "set_member (JStr ''ghost'') (completed_transitions ?m) = Inr True"
    by (simp add: set_member_def)
  have before: "get_progress ?m = Inr \<lparr> completed = 1, total = 0, remaining = - 1 \<rparr>"
    by (simp add: get_progress_def empty_manager_def)
  from skip_completed_keeps_progress [OF request seen, of demo_world] before
  show ?thesis by auto
qed

text \<open>
  Claim C10. The handler of \<^verbatim>\<open>/skip\<close> does not look at the task list. An id that no
  task has is added to the set all the same; when it was not there before, \<^verbatim>\<open>completed\<close>
  grows by one and \<^verbatim>\<open>remaining\<close> falls by one with \<^verbatim>\<open>total\<close> as it was, so from no task
  remaining the count goes below zero and \<^verbatim>\<open>completed\<close> above \<^verbatim>\<open>total\<close>.
\<close>

theorem skip_counts_unknown_id:
  assumes "py_getitem data ''transition_id'' = Inr (JStr s)"
    and "current_transitions m = JList ts"
    and "\<forall>t \<in> set ts. py_getitem t ''transition_id'' \<noteq> Inr (JStr s)"
  shows "\<exists>m'. skip data (m, w) = (Inr (), (m', w)) \<and>
           in_keys (JStr s) (completed_transitions m') \<and>
           current_transitions m' = current_transitions m \<and>
           (\<not> in_keys (JStr s) (completed_transitions m) \<longrightarrow>
              (\<exists>p p'. get_progress m = Inr p \<and> get_progress m' = Inr p' \<and>
                 completed p' = completed p + 1 \<and> total p' = total p \<and>
                 remaining p' = remaining p - 1 \<and>
                 (remaining p \<le> 0 \<longrightarrow> remaining p' < 0 \<and> total p' < completed p')))"
proof -
  let ?c = "if in_keys (JStr s) (completed_transitions m) then completed_transitions m
            else completed_transitions m @ [JStr s]"
  let ?m = "m\<lparr>completed_transitions := ?c\<rparr>"
  have add: "set_add (JStr s) (completed_transitions m) = Inr ?c"
    by (simp add: set_add_def)
  have run: "skip data (m, w) = (Inr (), (?m, w))"
    using assms(1) add by (rule skip_run)
  have member: "in_keys (JStr s) (completed_transitions ?m)"
    by simp
  have same: "current_transitions ?m = current_transitions m"
    by simp
  have count: "\<exists>p p'. get_progress m = Inr p \<and> get_progress ?m = Inr p' \<and>
      completed p' = completed p + 1 \<and> total p' = total p \<and>
      remaining p' = remaining p - 1 \<and>
      (remaining p \<le> 0 \<longrightarrow> remaining p' < 0 \<and> total p' < completed p')"
    if "\<not> in_keys (JStr s) (completed_transitions m)"
    using that assms(2) by (simp add: get_progress_def)
  from run member same count show ?thesis
    by blast
qed

theorem skip_counts_unknown_id_witness:
  "\<exists>p. get_progress (fst (snd (skip ghost_request (empty_manager, demo_world)))) = Inr p \<and>
       completed p = 1 \<and> total p = 0 \<and> remaining p = - 1"
proof -
  have request: "py_getitem ghost_request ''transition_id'' = Inr (JStr ''ghost'')"
    by (simp add: ghost_request_def)
  have tasks: "current_transitions empty_manager = JList []"
    by (simp add: empty_manager_def)
  have unknown: "\<forall>t \<in> set []. py_getitem t ''transition_id'' \<noteq> Inr (JStr ''ghost'')"
    by simp
  have fresh: "\<not> in_keys (JStr ''ghost'') (completed_transitions empty_manager)"
    by (simp add: empty_manager_def)
  have before: "get_progress empty_manager = Inr \<lparr> completed = 0, total = 0, remaining = 0 \<rparr>"
    by (simp add: get_progress_def empty_manager_def)
  from skip_counts_unknown_id [OF request tasks unknown, of demo_world] fresh before
  show ?thesis by auto
qed

section \<open>What the served task holds\<close>

text \<open>
  Claim C4 does not hold of the code. \<^verbatim>\<open>_enhance_transition_with_names\<close> stores the
  resolved parameters under \<^verbatim>\<open>parameters\<close> as well as under \<^verbatim>\<open>parameters_display\<close>
  (lines 255 and 256, the second commented \<^verbatim>\<open>Keep original for display\<close>): the task
  \<^verbatim>\<open>get_next_transition\<close> returns has no field with the raw identifiers. For the
  session over \<^const>\<open>demo_dataset\<close>, whose name table maps \<^verbatim>\<open>BC1\<close> to \<^verbatim>\<open>Water\<close>: the
  stored task \<^verbatim>\<open>t1_3\<close> has \<^verbatim>\<open>BC1\<close> as the source of its action, the served one has
  \<^verbatim>\<open>Water\<close> in both fields.
\<close>

theorem served_task_loses_raw_parameters:
  "init plain_lib ''data.json'' ''results'' None (Some 42) demo_world =
     (Inr demo_manager, demo_session_world) \<and>
   subvalue (current_transitions demo_manager)
     [Idx 0, Key ''action'', Key ''parameters'', Key ''source''] = Some (JStr ''BC1'') \<and>
   get_next_transition demo_manager = Inr (Some served_task) \<and>
   item served_task ''transition_id'' = JStr ''t1_3'' \<and>
   subvalue served_task [Key ''action'', Key ''parameters'', Key ''source''] = Some (JStr ''Water'') \<and>
   subvalue served_task [Key ''action'', Key ''parameters_display'', Key ''source''] =
     Some (JStr ''Water'') \<and>
   subvalue served_task [Key ''action'', Key ''parameters''] =
     subvalue served_task [Key ''action'', Key ''parameters_display'']"
proof -
  have served: "get_next_transition demo_manager = Inr (Some served_task)"
    by code_simp
  have raw: "subvalue (current_transitions demo_manager)
     [Idx 0, Key ''action'', Key ''parameters'', Key ''source''] = Some (JStr ''BC1'')"
    by code_simp
  have fields: "item served_task ''transition_id'' = JStr ''t1_3'' \<and>
      subvalue served_task [Key ''action'', Key ''parameters'', Key ''source''] =
        Some (JStr ''Water'') \<and>
      subvalue served_task [Key ''action'', Key ''parameters_display'', Key ''source''] =
        Some (JStr ''Water'') \<and>
      subvalue served_task [Key ''action'', Key ''parameters''] =
        subvalue served_task [Key ''action'', Key ''parameters_display'']"
    by (simp add: served_task_def item_def)
  from init_demo raw served fields show ?thesis
    by blast
qed

section \<open>A failed write\<close>

lemma update_session_file_write_fails:
  assumes "files w (session_file m) = Some (Stored (JObj sd))"
    and "progress_percentage m = Inr pct"
    and "faults w = False # True # fs \<or> faults w = False # False # True # fs"
  shows "\<exists>w'. update_session_file L m w = (Inl OSError, w') \<and>
           console w' = console w \<and>
           (faults w = False # True # fs \<longrightarrow> files w' = files w) \<and>
           (faults w = False # False # True # fs \<longrightarrow>
              files w' = (files w)(session_file m \<mapsto> Garbled))"
  using assms
  by (auto simp: update_session_file_def thn_def read_json_def write_json_def io_fault_def
      now_def lift_def)

lemma update_session_file_succeeds:
  assumes "files w (session_file m) = Some (Stored (JObj sd))"
    and "progress_percentage m = Inr pct"
    and "faults w = []"
  shows "\<exists>w' d. update_session_file L m w = (Inr (), w') \<and>
           files w' (session_file m) = Some (Stored d) \<and>
           py_getitem d ''validations'' = Inr (session_validations m)"
  using assms
  by (auto simp: update_session_file_def thn_def read_json_def write_json_def io_fault_def
      now_def lift_def)

text \<open>
  Claim C5, as the code has it. \<^verbatim>\<open>save_validation\<close> appends the judgment to
  \<^verbatim>\<open>session_validations\<close>, then writes the file, then adds the id to
  \<^verbatim>\<open>completed_transitions\<close>. When the write fails (at \<^verbatim>\<open>open\<close> or in \<^verbatim>\<open>json.dump\<close>) the
  error reaches the caller, the set is as before and the same task is served next; a
  failed \<^verbatim>\<open>open\<close> leaves the file as it was. The judgment however stays in the list in
  memory, and the next write that succeeds puts it into the file.
\<close>

theorem failed_write_keeps_judgment_in_memory:
  assumes "validation_result L (clock w) tid is_plausible categories custom_error comments
             confidence transition_data = Inr result"
    and "session_validations m = JList vs"
    and "files w (session_file m) = Some (Stored (JObj sd))"
    and "progress_percentage m = Inr pct"
    and "faults w = False # True # fs \<or> faults w = False # False # True # fs"
  shows "\<exists>m' w'. save_validation L tid is_plausible categories custom_error comments
                    confidence transition_data (m, w) = (Inl OSError, (m', w')) \<and>
           completed_transitions m' = completed_transitions m \<and>
           get_next_transition m' = get_next_transition m \<and>
           session_validations m' = JList (vs @ [result]) \<and>
           (faults w = False # True # fs \<longrightarrow> files w' = files w) \<and>
           (\<forall>w2 sd2. files w2 (session_file m') = Some (Stored (JObj sd2)) \<and> faults w2 = [] \<longrightarrow>
              (\<exists>w3 d. update_session_file L m' w2 = (Inr (), w3) \<and>
                 files w3 (session_file m') = Some (Stored d) \<and>
                 py_getitem d ''validations'' = Inr (JList (vs @ [result]))))"
proof -
  let ?m = "m\<lparr>session_validations := JList (vs @ [result])\<rparr>"
  have stored: "files w (session_file ?m) = Some (Stored (JObj sd))"
    using assms(3) by simp
  have pct: "progress_percentage ?m = Inr pct"
    using assms(4) by simp
  from update_session_file_write_fails [OF stored pct assms(5), of L]
  obtain w' where failed: "update_session_file L ?m w = (Inl OSError, w')"
    and untouched: "faults w = False # True # fs \<longrightarrow> files w' = files w"
    by blast
  have run: "save_validation L tid is_plausible categories custom_error comments
      confidence transition_data (m, w) = (Inl OSError, (?m, w'))"
    using assms(1,2) failed
    by (simp add: save_validation_def thn_def with_manager_def now_def lift_def modify_def)
  have later: "\<exists>w3 d. update_session_file L ?m w2 = (Inr (), w3) \<and>
      files w3 (session_file ?m) = Some (Stored d) \<and>
      py_getitem d ''validations'' = Inr (JList (vs @ [result]))"
    if "files w2 (session_file ?m) = Some (Stored (JObj sd2)) \<and> faults w2 = []" for w2 sd2
    using update_session_file_succeeds [of w2 ?m sd2 pct L] that pct by simp
  from run untouched later show ?thesis
    by (intro exI [of _ ?m] exI [of _ w']) simp
qed

lemma judge_demo_fails:
  "judge_served_task (demo_manager, failing_world) = (Inl OSError, after_failed_write)"
  by (simp add: judge_served_task_def save_validation_def thn_def with_manager_def now_def
      lift_def modify_def validation_result_def served_task_def demo_judgment_def
      demo_manager_def failing_world_def demo_session_world_def after_failed_write_def
      update_session_file_def read_json_def write_json_def io_fault_def
      progress_percentage_def plain_lib_def show_nat_digit)

theorem failed_write_keeps_judgment_in_memory_witness:
  "fst (judge_served_task (demo_manager, failing_world)) = Inl OSError \<and>
   completed_transitions (fst (snd (judge_served_task (demo_manager, failing_world)))) = [] \<and>
   session_validations (fst (snd (judge_served_task (demo_manager, failing_world)))) =
     JList [demo_judgment] \<and>
   files (snd (snd (judge_served_task (demo_manager, failing_world)))) = files failing_world"
proof -
  have result: "validation_result plain_lib (clock failing_world) (JStr ''t1_3'') (JBool False)
      (JList [JStr ''physical_impossible'']) (JStr []) (JStr []) JNull served_task =
      Inr demo_judgment"
    by (simp add: validation_result_def served_task_def demo_judgment_def failing_world_def
        demo_session_world_def plain_lib_def show_nat_digit)
  have empty: "session_validations demo_manager = JList []"
    by (simp add: demo_manager_def)
  have stored: "files failing_world (session_file demo_manager) =
      Some (Stored (JObj demo_session_record))"
    by (simp add: failing_world_def demo_session_world_def demo_manager_def)
  have pct: "progress_percentage demo_manager = Inr (JFloat 0)"
    by (simp add: progress_percentage_def demo_manager_def)
  have first: "faults failing_world = False # True # []"
    by (simp add: failing_world_def)
  then have faulty: "faults failing_world = False # True # [] \<or>
      faults failing_world = False # False # True # []"
    by simp
  have none: "completed_transitions demo_manager = []"
    by (simp add: demo_manager_def)
  from failed_write_keeps_judgment_in_memory [OF result empty stored pct faulty] first none
  show ?thesis
    by (auto simp: judge_served_task_def)
qed

text \<open>
  Claim C5 as stated fails. The write of the first judgment fails; the reviewer, served
  the same task again, judges it again and the write succeeds: the file then holds the
  judgment twice, the first copy being the one whose write had failed.
\<close>

theorem failed_judgment_is_persisted_later:
  "judge_served_task (demo_manager, failing_world) = (Inl OSError, after_failed_write) \<and>
   fst (judge_served_task after_failed_write) = Inr () \<and>
   stored_validations (snd (snd (judge_served_task after_failed_write)))
     ''results/validation_session_0.json'' = Some (JList [demo_judgment, demo_judgment])"
proof -
  have again: "fst (judge_served_task after_failed_write) = Inr () \<and>
      stored_validations (snd (snd (judge_served_task after_failed_write)))
        ''results/validation_session_0.json'' = Some (JList [demo_judgment, demo_judgment])"
    by (simp add: judge_served_task_def save_validation_def thn_def with_manager_def now_def
        lift_def modify_def validation_result_def served_task_def demo_judgment_def
        demo_manager_def demo_session_world_def after_failed_write_def
        update_session_file_def read_json_def write_json_def io_fault_def
        progress_percentage_def plain_lib_def show_nat_digit set_add_def say_def
        stored_validations_def item_def demo_session_record_def)
  with judge_demo_fails show ?thesis
    by simp
qed

section \<open>Resuming and the stored count\<close>

lemma resume_demo:
  "resume_from_session plain_lib ''results/validation_session_0.json'' None judged_world =
     (Inr judged_manager, resumed_world)"
  by (simp add: resume_from_session_def restore_session_def source_data_file_def path_exists_def
      thn_def io_fault_def now_def load_data_def read_json_def demo_world_def
      demo_dataset_def demo_group_def extract_transitions_def lift_def say_def show_nat_digit
      make_transition_def build_material_lookup_def lookup_of_transition_def add_material_def
      tbl_setitem_def randomize_transitions_def seed_random_def shuffle_copy_def shuffle_demo
      plain_lib_def demo_manager_def judged_manager_def judged_world_def resumed_world_def
      demo_session_world_def judged_record_def demo_judgment_def set_add_def
      expected_tasks_def tasks_from_def task_of_def predictions_of_def item_def
      error_marker_def water_table_def key_eq_def upt_conv_Cons)

text \<open>
  Claim C7, as the code has it. \<^verbatim>\<open>resume_from_session\<close> never reads the stored
  \<^verbatim>\<open>completed_transitions\<close> field: two session files that differ at most in that field
  give the same manager or the same exception and the same console output, so no
  mismatch is detected and nothing is reported. The completed set of the resumed
  manager is the one rebuilt from the stored judgment list.
\<close>

theorem resume_ignores_stored_count:
  assumes "files w p = Some (Stored (JObj sd))"
    and "agree_but ''completed_transitions'' sd' sd"
  shows "fst (resume_from_session L p given (w\<lparr>files := (files w)(p \<mapsto> Stored (JObj sd'))\<rparr>)) =
           fst (resume_from_session L p given w) \<and>
         console (snd (resume_from_session L p given
                    (w\<lparr>files := (files w)(p \<mapsto> Stored (JObj sd'))\<rparr>))) =
           console (snd (resume_from_session L p given w)) \<and>
         (\<forall>m w'. resume_from_session L p given w = (Inr m, w') \<longrightarrow>
            (\<exists>vals. py_get (JObj sd) ''validations'' (JList []) = Inr vals \<and>
               bnd (py_iter vals) (restore_completed []) = Inr (completed_transitions m)))"
proof -
  let ?w = "w\<lparr>files := (files w)(p \<mapsto> Stored (JObj sd'))\<rparr>"
  have related: "same_but p sd' sd ?w w"
    using assms(1) by (simp add: same_but_def)
  from steps_resume [OF assms(2), of p L given, unfolded steps_def, rule_format, OF related]
  have "same_but p sd' sd (snd (resume_from_session L p given ?w))
          (snd (resume_from_session L p given w))"
    and same: "fst (resume_from_session L p given ?w) = fst (resume_from_session L p given w)"
    by simp_all
  then have printed: "console (snd (resume_from_session L p given ?w)) =
      console (snd (resume_from_session L p given w))"
    by (simp add: same_but_def)
  have rebuilt: "\<exists>vals. py_get (JObj sd) ''validations'' (JList []) = Inr vals \<and>
      bnd (py_iter vals) (restore_completed []) = Inr (completed_transitions m)"
    if "resume_from_session L p given w = (Inr m, w')" for m w'
  proof -
    from resume_from_session_Inr [OF that] obtain d w1 where
      d: "read_json p w = (Inr d, w1)" "restore_session L p given d w1 = (Inr m, w')"
      by blast
    from read_json_Inr [OF d(1)] assms(1) have "d = JObj sd"
      by simp
    with restore_session_Inr [OF d(2)] show ?thesis
      by blast
  qed
  from same printed rebuilt show ?thesis
    by blast
qed

theorem resume_ignores_stored_count_witness:
  "fst (resume_from_session plain_lib ''results/validation_session_0.json'' None
          (judged_world\<lparr>files := (files judged_world)
             (''results/validation_session_0.json'' \<mapsto>
                Stored (JObj (dict_set ''completed_transitions'' (JInt 1) judged_record)))\<rparr>)) =
     Inr judged_manager \<and>
   completed_transitions judged_manager = [JStr ''t1_3'']"
proof -
  have stored: "files judged_world ''results/validation_session_0.json'' =
      Some (Stored (JObj judged_record))"
    by (simp add: judged_world_def)
  have agree: "agree_but ''completed_transitions''
      (dict_set ''completed_transitions'' (JInt 1) judged_record) judged_record"
    by (simp add: agree_but_def)
  from resume_ignores_stored_count [OF stored agree, of plain_lib None] resume_demo
  show ?thesis
    by (simp add: judged_manager_def)
qed

text \<open>
  Claim C7 as stated fails, already for a file the program wrote itself. After one
  judgment the file holds one judgment and the count 0, since the count is stored
  before the id is added. Resuming from it succeeds, with one completed task, and
  prints the usual lines and no warning.
\<close>

theorem resume_reports_no_mismatch:
  "judge_served_task (demo_manager, demo_session_world) = (Inr (), (judged_manager, judged_world)) \<and>
   files judged_world ''results/validation_session_0.json'' = Some (Stored (JObj judged_record)) \<and>
   item (JObj judged_record) ''completed_transitions'' = JInt 0 \<and>
   item (JObj judged_record) ''validations'' = JList [demo_judgment] \<and>
   resume_from_session plain_lib ''results/validation_session_0.json'' None judged_world =
     (Inr judged_manager, resumed_world) \<and>
   completed_transitions judged_manager = [JStr ''t1_3''] \<and>
   console resumed_world =
     console judged_world @
       [LoadedTransitions 3, BuiltLookup 1, UsingSeed (JInt 42), Randomized 3,
        ResumedFrom ''results/validation_session_0.json'', ResumeProgress 1 3]"
  using judge_demo resume_demo
  by (simp add: judged_world_def judged_record_def item_def judged_manager_def resumed_world_def)

section \<open>Resuming a session\<close>

lemma key_eq_trans: "key_eq a b \<Longrightarrow> key_eq b c \<Longrightarrow> key_eq a c"
  by (auto simp: key_eq_def split: option.splits)

lemma in_keys_iff: "in_keys x ys \<longleftrightarrow> (\<exists>y \<in> set ys. key_eq y x)"
  by (induction ys) auto

lemma set_add_keys:
  "set_add x s = Inr s' \<Longrightarrow> in_keys k s' \<longleftrightarrow> in_keys k s \<or> key_eq x k"
  by (auto simp: set_add_def in_keys_iff split: if_splits dest: key_eq_trans)

lemma restore_completed_keys:
  "restore_completed acc vs = Inr c \<Longrightarrow>
   in_keys k c \<longleftrightarrow>
     in_keys k acc \<or> (\<exists>v \<in> set vs. \<exists>t. py_getitem v ''transition_id'' = Inr t \<and> key_eq t k)"
proof (induction vs arbitrary: acc)
  case Nil
  then show ?case by simp
next
  case (Cons v vs)
  from Cons.prems obtain t acc' where t: "py_getitem v ''transition_id'' = Inr t"
    and acc': "set_add t acc = Inr acc'" and rest: "restore_completed acc' vs = Inr c"
    by (auto simp: bnd_eq_Inr)
  from Cons.IH [OF rest] set_add_keys [OF acc', of k] t show ?case
    by auto
qed

lemma first_pending_Some:
  "first_pending c ts = Inr (Some t) \<Longrightarrow>
   \<exists>tid. py_getitem t ''transition_id'' = Inr tid \<and> \<not> in_keys tid c"
proof (induction ts)
  case Nil
  then show ?case by simp
next
  case (Cons u us)
  then show ?case
    by (auto simp: bnd_eq_Inr set_member_def split: if_splits)
qed

lemma enhance_keeps_id:
  assumes "enhance_transition_with_names tbl t = Inr t'"
    and "py_getitem t ''transition_id'' = Inr tid"
  shows "py_getitem t' ''transition_id'' = Inr tid"
proof -
  from assms(2) obtain kvs where t: "t = JObj kvs"
    by (cases t) auto
  from assms show ?thesis
    unfolding t enhance_transition_with_names_def
    by (auto simp: bnd_eq_Inr split: if_splits option.splits)
qed

lemma get_next_transition_Some:
  assumes "get_next_transition m = Inr (Some t)"
  shows "\<exists>tid. py_getitem t ''transition_id'' = Inr tid \<and> \<not> in_keys tid (completed_transitions m)"
proof -
  from assms obtain ts u where "first_pending (completed_transitions m) ts = Inr (Some u)"
    and "enhance_transition_with_names (material_lookup m) u = Inr t"
    by (auto simp: get_next_transition_def bnd_eq_Inr split: option.splits)
  with first_pending_Some enhance_keeps_id show ?thesis
    by blast
qed

lemma keeps_thn: "keeps P p \<Longrightarrow> (\<And>x. keeps P (k x)) \<Longrightarrow> keeps P (thn p k)"
  by (auto simp: keeps_def thn_def split: prod.splits sum.splits)
    (metis fst_conv snd_conv)+

lemma keeps_lift: "keeps P (lift r)"
  by (simp add: keeps_def lift_def)

lemma keeps_with_manager: "keeps P (with_manager p)"
  by (simp add: keeps_def with_manager_def split: prod.splits)

lemma keeps_if: "keeps P p \<Longrightarrow> keeps P q \<Longrightarrow> keeps P (if c then p else q)"
  by simp

lemma keeps_modify:
  "(\<And>m m'. P m \<Longrightarrow> f m = Inr m' \<Longrightarrow> P m') \<Longrightarrow> keeps P (modify f)"
  by (auto simp: keeps_def modify_def split: sum.splits)

lemma keeps_completed_validate:
  "keeps (\<lambda>m. in_keys k (completed_transitions m)) (validate L data)"
  unfolding validate_def save_validation_def
  by (intro keeps_thn keeps_lift keeps_with_manager keeps_if keeps_modify)
    (auto simp: bnd_eq_Inr set_add_keys)

lemma keeps_completed_skip:
  "keeps (\<lambda>m. in_keys k (completed_transitions m)) (skip data)"
  unfolding skip_def
  by (intro keeps_thn keeps_lift keeps_modify) (auto simp: bnd_eq_Inr set_add_keys)

lemma handle_keeps_completed:
  assumes "in_keys k (completed_transitions (fst s))"
  shows "in_keys k (completed_transitions (fst (handle L r s)))"
proof (cases r)
  case (Validate data)
  with keeps_completed_validate [of k L data, unfolded keeps_def, rule_format, OF assms]
  show ?thesis by simp
next
  case (Skip data)
  with keeps_completed_skip [of k data, unfolded keeps_def, rule_format, OF assms]
  show ?thesis by simp
qed

lemma serve_keeps_completed:
  "in_keys k (completed_transitions (fst s)) \<Longrightarrow>
   in_keys k (completed_transitions (fst (serve L requests s)))"
  unfolding serve_def
  by (induction requests arbitrary: s) (simp_all add: handle_keeps_completed)

lemma say_eq [simp]: "say l w = (r, w') \<longleftrightarrow> r = Inr () \<and> w' = w\<lparr>console := console w @ [l]\<rparr>"
  by (auto simp: say_def)

lemma now_eq [simp]: "now w = (r, w') \<longleftrightarrow> r = Inr (clock w) \<and> w' = w"
  by (auto simp: now_def)

lemma randomize_seeded_list:
  "seed \<noteq> JNull \<Longrightarrow> randomize_transitions L seed (JList T) w = (Inr cur, w') \<Longrightarrow>
   cur = JList (fst (shuffle (randbelow L) (seed_of L seed) T))"
  by (auto simp: randomize_transitions_def thn_eq_Inr seed_random_def shuffle_copy_def
      split: if_splits prod.splits)

lemma randomize_seeded_same:
  "seed \<noteq> JNull \<Longrightarrow> randomize_transitions L seed ts w1 = (Inr c1, u1) \<Longrightarrow>
   randomize_transitions L seed ts w2 = (Inr c2, u2) \<Longrightarrow> c1 = c2"
  by (auto simp: randomize_transitions_def thn_eq_Inr seed_random_def shuffle_copy_def
      split: if_splits prod.splits json.splits)

lemma load_data_Inr:
  "load_data L data w = (Inr (ts, md), w') \<Longrightarrow>
   \<exists>d. files w data = Some (Stored d) \<and> extract_transitions L d = Inr ts \<and> files w' = files w"
  by (auto simp: load_data_def thn_eq_Inr dest!: read_json_Inr)

lemma source_data_file_world: "source_data_file sd given w = (r, w1) \<Longrightarrow> w1 = w"
  by (auto simp: source_data_file_def split: option.splits)

lemma io_fault_Inr: "io_fault w = (Inr x, w') \<Longrightarrow> files w' = files w \<and> clock w' = clock w"
  by (auto simp: io_fault_def split: list.splits if_splits)

lemma write_json_Inr:
  "write_json p j w = (Inr x, w') \<Longrightarrow> files w' = (files w)(p \<mapsto> Stored j)"
  by (auto simp: write_json_def thn_eq_Inr dest!: io_fault_Inr)

lemma init_Inr:
  assumes "init L data results name seed w = (Inr m, w')"
  shows "session_validations m = JList [] \<and> completed_transitions m = [] \<and>
         random_seed m = (case seed of None \<Rightarrow> JNull | Some i \<Rightarrow> JInt i) \<and>
         (\<exists>sd. files w' (session_file m) = Some (Stored (JObj sd)) \<and>
            map_of sd ''validations'' = Some (JList []) \<and>
            map_of sd ''random_seed'' = Some (random_seed m)) \<and>
         (\<exists>u u'. randomize_transitions L (random_seed m) (transitions m) u =
            (Inr (current_transitions m), u'))"
  using assms unfolding init_def initialize_session_file_def Let_def
  by (auto simp: thn_eq_Inr dest!: write_json_Inr) blast

lemma with_manager_eq [simp]:
  "with_manager p (m, w) = (r, (m', w')) \<longleftrightarrow> m = m' \<and> p m w = (r, w')"
  by (auto simp: with_manager_def split: prod.splits)

lemma modify_eq_Inr [simp]:
  "modify f (m, w) = (Inr x, (m', w')) \<longleftrightarrow> f m = Inr m' \<and> w = w'"
  by (auto simp: modify_def split: sum.splits)

lemma thn_pair_Inr:
  "thn p f (m, w) = (Inr y, (m', w')) \<longleftrightarrow>
     (\<exists>x m1 w1. p (m, w) = (Inr x, (m1, w1)) \<and> f x (m1, w1) = (Inr y, (m', w')))"
  by (auto simp: thn_def split: prod.splits sum.splits)

lemma py_setitem_Inr:
  "py_setitem d k v = Inr d' \<longleftrightarrow> (\<exists>kvs. d = JObj kvs \<and> d' = JObj (dict_set k v kvs))"
  by (cases d) auto

lemma update_session_file_Inr:
  assumes "update_session_file L m w = (Inr x, w')"
  shows "\<exists>sd sd'. files w (session_file m) = Some (Stored (JObj sd)) \<and>
           files w' (session_file m) = Some (Stored (JObj sd')) \<and>
           map_of sd' ''validations'' = Some (session_validations m) \<and>
           map_of sd' ''random_seed'' = map_of sd ''random_seed''"
  using assms
  by (auto simp: update_session_file_def thn_eq_Inr py_setitem_Inr
      dest!: read_json_Inr write_json_Inr)

lemma save_validation_Inr:
  assumes "save_validation L tid ip cats ce cm cf td (m, w) = (Inr x, (m', w'))"
  shows "\<exists>v vs w1 c. validation_result L (clock w) tid ip cats ce cm cf td = Inr v \<and>
           session_validations m = JList vs \<and>
           update_session_file L (m\<lparr>session_validations := JList (vs @ [v])\<rparr>) w = (Inr (), w1) \<and>
           m' = m\<lparr>session_validations := JList (vs @ [v]), completed_transitions := c\<rparr> \<and>
           files w' = files w1"
proof -
  from assms obtain v m1 w1 m2 w2 where v: "validation_result L (clock w) tid ip cats ce cm cf td = Inr v"
    and m1: "bnd (py_append (session_validations m) v) (\<lambda>vs. Inr (m\<lparr>session_validations := vs\<rparr>)) = Inr m1"
    and upd: "update_session_file L m1 w = (Inr (), w1)"
    and m2: "bnd (set_add tid (completed_transitions m1)) (\<lambda>c. Inr (m1\<lparr>completed_transitions := c\<rparr>)) = Inr m2"
    and final: "(if truthy ip then with_manager (\<lambda>m. say (SavedPlausible tid))
        else thn (lift (py_len cats)) (\<lambda>n. with_manager (\<lambda>m. say (SavedImplausible tid n))))
        (m2, w1) = (Inr x, (m', w'))"
    unfolding save_validation_def
    by (simp add: thn_pair_Inr) blast
  from m1 obtain vs where vs: "session_validations m = JList vs"
    "m1 = m\<lparr>session_validations := JList (vs @ [v])\<rparr>"
    by (cases "session_validations m") (auto simp: bnd_eq_Inr)
  from m2 obtain c where c: "m2 = m1\<lparr>completed_transitions := c\<rparr>"
    by (auto simp: bnd_eq_Inr)
  from final have "m' = m2 \<and> files w' = files w1"
    by (auto simp: thn_pair_Inr split: if_splits)
  with v vs c upd show ?thesis
    by auto
qed

lemma validate_Inr:
  assumes "validate L r (m, w) = (Inr x, (m', w'))"
    and "py_getitem r ''transition_id'' = Inr a"
  shows "\<exists>v vs sd sd'. session_validations m = JList vs \<and>
           session_validations m' = JList (vs @ [v]) \<and>
           py_getitem v ''transition_id'' = Inr a \<and>
           session_file m' = session_file m \<and>
           files w (session_file m) = Some (Stored (JObj sd)) \<and>
           files w' (session_file m) = Some (Stored (JObj sd')) \<and>
           map_of sd' ''validations'' = Some (JList (vs @ [v])) \<and>
           map_of sd' ''random_seed'' = map_of sd ''random_seed''"
proof -
  from assms obtain ip cats ce cm cf td where
    "save_validation L a ip cats ce cm cf td (m, w) = (Inr x, (m', w'))"
    unfolding validate_def by (simp add: thn_pair_Inr) blast
  from save_validation_Inr [OF this] obtain v vs w1 c where
    v: "validation_result L (clock w) a ip cats ce cm cf td = Inr v"
    and vs: "session_validations m = JList vs"
    and upd: "update_session_file L (m\<lparr>session_validations := JList (vs @ [v])\<rparr>) w = (Inr (), w1)"
    and m': "m' = m\<lparr>session_validations := JList (vs @ [v]), completed_transitions := c\<rparr>"
    and w': "files w' = files w1"
    by blast
  from v have "py_getitem v ''transition_id'' = Inr a"
    by (auto simp: validation_result_def bnd_eq_Inr)
  with update_session_file_Inr [OF upd] vs m' w' show ?thesis
    by auto
qed

text \<open>
  Claim C1. Let resuming from the session file \<open>p\<close> succeed, the file holding a seed.
  Then (1) what \<^verbatim>\<open>completed_transitions\<close> contains is exactly the ids of the stored
  judgments; (2) the tasks are those extracted anew from the data file and, for a task
  list, their order is the shuffle of that list by the generator seeded with the stored
  seed, whatever the generator's state was; (3) after any requests, the task
  \<^verbatim>\<open>get_next_transition\<close> returns has an id outside that set. (4) If the file is the one
  of a session created with seed \<open>s\<close> in which judgments of two tasks with different
  ids \<open>a\<close> and \<open>b\<close> were saved, then \<^verbatim>\<open>get_progress\<close> gives 2 as \<^verbatim>\<open>completed\<close>, neither
  task is served again, and when the re-extracted tasks are the tasks of the first run
  the order is the order of the first run.
\<close>

theorem resume_fidelity:
  assumes "resume_from_session L p given w = (Inr m, w')"
    and "files w p = Some (Stored sd)"
    and "py_get sd ''random_seed'' (JInt 42) = Inr seed"
    and "seed \<noteq> JNull"
  shows "(\<exists>vals vs. py_get sd ''validations'' (JList []) = Inr vals \<and> py_iter vals = Inr vs \<and>
            (\<forall>k. in_keys k (completed_transitions m) \<longleftrightarrow>
               (\<exists>v \<in> set vs. \<exists>t. py_getitem v ''transition_id'' = Inr t \<and> key_eq t k))) \<and>
         (\<exists>d. files w (data_file m) = Some (Stored d) \<and>
            extract_transitions L d = Inr (transitions m) \<and>
            (\<forall>T. transitions m = JList T \<longrightarrow>
               current_transitions m = JList (fst (shuffle (randbelow L) (seed_of L seed) T)))) \<and>
         (\<forall>requests t. get_next_transition (fst (serve L requests (m, w'))) = Inr (Some t) \<longrightarrow>
            (\<exists>tid. py_getitem t ''transition_id'' = Inr tid \<and>
               \<not> in_keys tid (completed_transitions m))) \<and>
         (\<forall>data results name s w00 m0 w0 ra a m1 w1 rb b m2 w2.
            init L data results name (Some s) w00 = (Inr m0, w0) \<and> session_file m0 = p \<and>
            validate L ra (m0, w0) = (Inr (), (m1, w1)) \<and>
            py_getitem ra ''transition_id'' = Inr a \<and>
            validate L rb (m1, w1) = (Inr (), (m2, w2)) \<and>
            py_getitem rb ''transition_id'' = Inr b \<and>
            \<not> key_eq a b \<and> files w p = files w2 p \<longrightarrow>
            (\<exists>pr. get_progress m = Inr pr \<and> completed pr = 2) \<and>
            (\<forall>requests t.
               get_next_transition (fst (serve L requests (m, w'))) = Inr (Some t) \<longrightarrow>
               \<not> key_eq a (item t ''transition_id'') \<and> \<not> key_eq b (item t ''transition_id'')) \<and>
            (transitions m = transitions m0 \<longrightarrow> current_transitions m = current_transitions m0))"
proof -
  from resume_from_session_Inr [OF assms(1)] obtain d w1 where
    rd: "read_json p w = (Inr d, w1)" and rs: "restore_session L p given d w1 = (Inr m, w')"
    by blast
  from read_json_Inr [OF rd] assms(2) have d: "d = sd" and w1: "files w1 = files w"
    by simp_all
  from restore_session_Inr [OF rs] assms(3) obtain vals u1 u2 u3 u4 n where
    vals: "py_get sd ''validations'' (JList []) = Inr vals"
    and restored: "bnd (py_iter vals) (restore_completed []) = Inr (completed_transitions m)"
    and source: "source_data_file sd given w1 = (Inr (data_file m), u1)"
    and loaded: "load_data L (data_file m) u1 = (Inr (transitions m, metadata m), u2)"
    and ordered: "randomize_transitions L seed (transitions m) u3 = (Inr (current_transitions m), u4)"
    and sized: "py_len (current_transitions m) = Inr n"
    unfolding d by auto
  from restored obtain vs where vs: "py_iter vals = Inr vs"
    and rebuilt: "restore_completed [] vs = Inr (completed_transitions m)"
    by (auto simp: bnd_eq_Inr)
  have next_pending: "\<exists>tid. py_getitem t ''transition_id'' = Inr tid \<and>
      \<not> in_keys tid (completed_transitions m)"
    if "get_next_transition (fst (serve L requests (m, w'))) = Inr (Some t)" for requests t
  proof -
    from get_next_transition_Some [OF that] obtain tid where
      tid: "py_getitem t ''transition_id'' = Inr tid"
      "\<not> in_keys tid (completed_transitions (fst (serve L requests (m, w'))))"
      by blast
    from tid(2) serve_keeps_completed [of tid "(m, w')" L requests]
    have "\<not> in_keys tid (completed_transitions m)"
      by auto
    with tid(1) show ?thesis by blast
  qed
  have A1: "\<exists>vals vs. py_get sd ''validations'' (JList []) = Inr vals \<and> py_iter vals = Inr vs \<and>
      (\<forall>k. in_keys k (completed_transitions m) \<longleftrightarrow>
         (\<exists>v \<in> set vs. \<exists>t. py_getitem v ''transition_id'' = Inr t \<and> key_eq t k))"
    using vals vs restore_completed_keys [OF rebuilt] by auto
  have A2: "\<exists>d. files w (data_file m) = Some (Stored d) \<and>
      extract_transitions L d = Inr (transitions m) \<and>
      (\<forall>T. transitions m = JList T \<longrightarrow>
         current_transitions m = JList (fst (shuffle (randbelow L) (seed_of L seed) T)))"
  proof -
    from source_data_file_world [OF source] have "u1 = w1" .
    with load_data_Inr [OF loaded] w1 obtain dd where
      "files w (data_file m) = Some (Stored dd)" "extract_transitions L dd = Inr (transitions m)"
      by auto
    moreover have "current_transitions m = JList (fst (shuffle (randbelow L) (seed_of L seed) T))"
      if "transitions m = JList T" for T
      using randomize_seeded_list [OF assms(4), of L T u3 "current_transitions m" u4] ordered that
      by simp
    ultimately show ?thesis by blast
  qed
  have B: "(\<exists>pr. get_progress m = Inr pr \<and> completed pr = 2) \<and>
      (\<forall>requests t.
         get_next_transition (fst (serve L requests (m, w'))) = Inr (Some t) \<longrightarrow>
         \<not> key_eq a (item t ''transition_id'') \<and> \<not> key_eq b (item t ''transition_id'')) \<and>
      (transitions m = transitions m0 \<longrightarrow> current_transitions m = current_transitions m0)"
    if scenario: "init L data results name (Some s) w00 = (Inr m0, w0) \<and> session_file m0 = p \<and>
      validate L ra (m0, w0) = (Inr (), (m1, w1')) \<and>
      py_getitem ra ''transition_id'' = Inr a \<and>
      validate L rb (m1, w1') = (Inr (), (m2, w2)) \<and>
      py_getitem rb ''transition_id'' = Inr b \<and>
      \<not> key_eq a b \<and> files w p = files w2 p"
    for data results name s w00 m0 w0 ra a m1 w1' rb b m2 w2
  proof -
    from scenario have started: "init L data results name (Some s) w00 = (Inr m0, w0)"
      and path: "session_file m0 = p"
      and first: "validate L ra (m0, w0) = (Inr (), (m1, w1'))"
        "py_getitem ra ''transition_id'' = Inr a"
      and second: "validate L rb (m1, w1') = (Inr (), (m2, w2))"
        "py_getitem rb ''transition_id'' = Inr b"
      and distinct: "\<not> key_eq a b" and disk: "files w p = files w2 p"
      by simp_all
    from init_Inr [OF started] path obtain sd0 u u' where
      fresh: "session_validations m0 = JList []"
      and seed0: "random_seed m0 = JInt s"
      and sd0: "files w0 p = Some (Stored (JObj sd0))" "map_of sd0 ''random_seed'' = Some (JInt s)"
      and order0: "randomize_transitions L (JInt s) (transitions m0) u = (Inr (current_transitions m0), u')"
      by auto
    from validate_Inr [OF first] fresh path sd0 obtain v1 sd1 where
      v1: "py_getitem v1 ''transition_id'' = Inr a"
      and m1: "session_validations m1 = JList [v1]" "session_file m1 = p"
      and sd1: "files w1' p = Some (Stored (JObj sd1))" "map_of sd1 ''random_seed'' = Some (JInt s)"
      by auto
    from validate_Inr [OF second] m1 sd1 obtain v2 sd2 where
      v2: "py_getitem v2 ''transition_id'' = Inr b"
      and sd2: "files w2 p = Some (Stored (JObj sd2))"
        "map_of sd2 ''validations'' = Some (JList [v1, v2])"
        "map_of sd2 ''random_seed'' = Some (JInt s)"
      by auto
    from sd2 disk assms(2) have sd: "sd = JObj sd2"
      by simp
    with vals vs sd2 have "vs = [v1, v2]"
      by auto
    with rebuilt v1 v2 distinct have finished: "completed_transitions m = [a, b]"
      by (auto simp: bnd_eq_Inr set_add_def split: if_splits)
    have count: "\<exists>pr. get_progress m = Inr pr \<and> completed pr = 2"
      using sized finished by (simp add: get_progress_def)
    have served: "\<not> key_eq a (item t ''transition_id'') \<and> \<not> key_eq b (item t ''transition_id'')"
      if "get_next_transition (fst (serve L requests (m, w'))) = Inr (Some t)" for requests t
      using next_pending [OF that] finished by (auto simp: item_def)
    have "seed = JInt s"
      using assms(3) sd sd2 by simp
    then have order: "current_transitions m = current_transitions m0"
      if "transitions m = transitions m0"
      using randomize_seeded_same [OF assms(4), of L "transitions m"] ordered order0 that
      by auto
    from count served order show ?thesis
      by blast
  qed
  from A1 A2 next_pending B show ?thesis
    by blast
qed

lemma validate_first:
  "validate plain_lib first_request (demo_manager, demo_session_world) =
     (Inr (), (judged_manager, judged_world))"
  using judge_demo by (simp add: validate_def first_request_def judge_served_task_def)

lemma validate_second:
  "validate plain_lib second_request (judged_manager, judged_world) =
     (Inr (), (twice_manager, twice_world))"
  by (simp add: validate_def second_request_def save_validation_def thn_def with_manager_def
      now_def lift_def modify_def validation_result_def demo_judgment_def second_judgment_def
      demo_manager_def demo_session_world_def judged_manager_def judged_world_def
      twice_manager_def twice_world_def twice_record_def
      judged_record_def update_session_file_def read_json_def write_json_def io_fault_def
      progress_percentage_def plain_lib_def show_nat_digit set_add_def say_def key_eq_def)

lemma resume_twice:
  "resume_from_session plain_lib ''results/validation_session_0.json'' None twice_world =
     (Inr twice_manager, resumed_twice_world)"
  by (simp add: resume_from_session_def restore_session_def source_data_file_def path_exists_def
      thn_def io_fault_def now_def load_data_def read_json_def demo_world_def
      demo_dataset_def demo_group_def extract_transitions_def lift_def say_def show_nat_digit
      make_transition_def build_material_lookup_def lookup_of_transition_def add_material_def
      tbl_setitem_def randomize_transitions_def seed_random_def shuffle_copy_def shuffle_demo
      plain_lib_def demo_manager_def judged_world_def twice_manager_def twice_world_def
      resumed_twice_world_def demo_session_world_def twice_record_def demo_judgment_def
      second_judgment_def set_add_def expected_tasks_def tasks_from_def task_of_def
      predictions_of_def item_def error_marker_def water_table_def key_eq_def upt_conv_Cons)

theorem resume_fidelity_witness:
  "(\<exists>pr. get_progress twice_manager = Inr pr \<and> completed pr = 2) \<and>
   current_transitions twice_manager = current_transitions demo_manager \<and>
   (\<exists>t. get_next_transition twice_manager = Inr (Some t) \<and>
      \<not> key_eq (JStr ''t1_3'') (item t ''transition_id'') \<and>
      \<not> key_eq (JStr ''t1_2'') (item t ''transition_id''))"
proof -
  have stored: "files twice_world ''results/validation_session_0.json'' =
      Some (Stored (JObj twice_record))"
    by (simp add: twice_world_def)
  have seed: "py_get (JObj twice_record) ''random_seed'' (JInt 42) = Inr (JInt 42)"
    "JInt 42 \<noteq> JNull"
    by (simp_all add: twice_record_def)
  note fidelity = resume_fidelity [OF resume_twice stored seed]
  have path: "session_file demo_manager = ''results/validation_session_0.json''"
    by (simp add: demo_manager_def)
  have ids: "py_getitem first_request ''transition_id'' = Inr (JStr ''t1_3'')"
    "py_getitem second_request ''transition_id'' = Inr (JStr ''t1_2'')"
    "\<not> key_eq (JStr ''t1_3'') (JStr ''t1_2'')"
    by (simp_all add: first_request_def second_request_def key_eq_def)
  have same_tasks: "transitions twice_manager = transitions demo_manager"
    by (simp add: twice_manager_def)
  have served: "\<exists>t. get_next_transition twice_manager = Inr (Some t)"
    by (simp add: get_next_transition_def twice_manager_def demo_manager_def
        expected_tasks_def tasks_from_def task_of_def predictions_of_def item_def
        error_marker_def demo_group_def upt_conv_Cons set_member_def key_eq_def show_nat_digit
        enhance_transition_with_names_def transfer_parameters_def)
  from fidelity init_demo path validate_first validate_second ids same_tasks
  have "(\<exists>pr. get_progress twice_manager = Inr pr \<and> completed pr = 2) \<and>
      (\<forall>requests t.
         get_next_transition (fst (serve plain_lib requests (twice_manager, resumed_twice_world))) =
           Inr (Some t) \<longrightarrow>
         \<not> key_eq (JStr ''t1_3'') (item t ''transition_id'') \<and>
         \<not> key_eq (JStr ''t1_2'') (item t ''transition_id'')) \<and>
      current_transitions twice_manager = current_transitions demo_manager"
    by blast
  then have count: "\<exists>pr. get_progress twice_manager = Inr pr \<and> completed pr = 2"
    and order: "current_transitions twice_manager = current_transitions demo_manager"
    and later: "get_next_transition (fst (serve plain_lib [] (twice_manager, resumed_twice_world))) =
        Inr (Some t) \<Longrightarrow>
      \<not> key_eq (JStr ''t1_3'') (item t ''transition_id'') \<and>
      \<not> key_eq (JStr ''t1_2'') (item t ''transition_id'')" for t
    by blast+
  from served obtain t where t: "get_next_transition twice_manager = Inr (Some t)"
    by blast
  with later [of t] have "\<not> key_eq (JStr ''t1_3'') (item t ''transition_id'') \<and>
      \<not> key_eq (JStr ''t1_2'') (item t ''transition_id'')"
    by (simp add: serve_def)
  with count order t show ?thesis
    by blast
qed

end
